theory Spec2Isabelle
  imports Complex_Main
begin

section \<open>Values shared by the engine\<close>

text \<open>
  A \<^verbatim>\<open>datetime\<close> is counted in microseconds since the epoch (its resolution).
  Python floats that are only stored, compared with each other or handed to external
  helpers (coordinates, distances) are read as reals.
\<close>

type_synonym datetime = int

text \<open>
  \<^verbatim>\<open>timedelta.total_seconds()\<close> is the true division of the delta's microseconds by
  \<open>10^6\<close>: the double nearest to the quotient, ties to the even mantissa. The
  quotient of two integers \<open>n\<close> and \<open>d > 0\<close> lies between \<open>2^e\<close> and \<open>2^(e+1)\<close>
  for the exponent \<open>e\<close> found from the bit lengths; the 53-bit mantissa is the quotient
  divided by \<open>2^(e-52)\<close>, rounded half to even. (Overflow and subnormal results
  cannot occur for a timedelta: its seconds lie between \<open>10^-6\<close> and \<open>10^14\<close> in
  magnitude.)
\<close>

function bit_length :: "int \<Rightarrow> nat" where
  "bit_length n = (if n \<le> 0 then 0 else Suc (bit_length (n div 2)))"
  by pat_completeness auto
termination
  by (relation "measure nat") auto

declare bit_length.simps [simp del]

definition round_half_even :: "int \<Rightarrow> int \<Rightarrow> int" where
  "round_half_even num den =
     (let f = num div den; r = num mod den in
      if 2 * r < den then f
      else if den < 2 * r then f + 1
      else if even f then f else f + 1)"

definition true_div :: "int \<Rightarrow> int \<Rightarrow> real" where
  "true_div n d =
     (if n = 0 then 0
      else
        (let a = \<bar>n\<bar>;
             e0 = int (bit_length a) - int (bit_length d);
             e = (if (if 0 \<le> e0 then d * 2 ^ nat e0 \<le> a else d \<le> a * 2 ^ nat (- e0))
                  then e0 else e0 - 1);
             s = e - 52;
             mant = (if 0 \<le> s then round_half_even a (d * 2 ^ nat s)
                     else round_half_even (a * 2 ^ nat (- s)) d);
             magnitude = (if 0 \<le> s then real_of_int (mant * 2 ^ nat s)
                          else real_of_int mant / 2 ^ nat (- s))
         in if n < 0 then - magnitude else magnitude))"

definition total_seconds :: "int \<Rightarrow> real" where
  "total_seconds delta = true_div delta 1000000"

text \<open>The exceptions that can leave a processor (they are caught in \<^verbatim>\<open>Manager.run\<close>).\<close>

datatype py_error = AttributeError | IndexError | ValueError

text \<open>The values of a data bag (\<^verbatim>\<open>dts\<close>): strings, floats, lists of names, or the
  \<^verbatim>\<open>Unknown\<close> sentinel.\<close>

datatype dts_value = DStr string | DFloat real | DList "string list" | DUnknown

text \<open>\<^verbatim>\<open>str.split(sep)\<close> for a one-character separator: never empty, one more segment
  than there are separators.\<close>

fun split_on :: "char \<Rightarrow> string \<Rightarrow> string list" where
  "split_on c [] = [[]]"
| "split_on c (x # xs) =
     (if x = c then [] # split_on c xs
      else (x # hd (split_on c xs)) # tl (split_on c xs))"

text \<open>\<^verbatim>\<open>str(n)\<close> for a natural number (decimal digits).\<close>

definition digit_char :: "nat \<Rightarrow> char" where
  "digit_char d = char_of (48 + d)"

fun str_nat :: "nat \<Rightarrow> string" where
  "str_nat n = (if n < 10 then [digit_char n] else str_nat (n div 10) @ [digit_char (n mod 10)])"

declare str_nat.simps [simp del]

section \<open>Expiring state cache\<close>

text \<open>
  The cache class is not part of the sources at hand; the Manager only calls its methods.
  The stores: one expiration store per suppressed kind (creature encounters, eggs and
  raids by gym id), and latest-value slots for gym name, description, image, team id and
  per-cell weather condition.
\<close>

record Cache =
  mon_hist :: "string \<rightharpoonup> datetime"
  egg_hist :: "string \<rightharpoonup> datetime"
  raid_hist :: "string \<rightharpoonup> datetime"
  gym_name_slot :: "string \<rightharpoonup> string"
  gym_desc_slot :: "string \<rightharpoonup> string"
  gym_image_slot :: "string \<rightharpoonup> string"
  gym_team_slot :: "string \<rightharpoonup> int"
  cell_weather_slot :: "string \<rightharpoonup> string"

text \<open>Modelled from the spec: \<^verbatim>\<open>Cache.monster_expiration\<close>, \<^verbatim>\<open>Cache.egg_expiration\<close> and
  \<^verbatim>\<open>Cache.raid_expiration\<close> (the Cache module is missing). Called with an id alone they
  return the stored expiration timestamp of the entity, or nothing when the store holds
  no entry; called with a timestamp they record it for the id ("otherwise record the new
  expiration").\<close>

definition monster_expiration :: "Cache \<Rightarrow> string \<Rightarrow> datetime option" where
  "monster_expiration c mon_id = mon_hist c mon_id"

definition monster_expiration_set :: "Cache \<Rightarrow> string \<Rightarrow> datetime \<Rightarrow> Cache" where
  "monster_expiration_set c mon_id t = c\<lparr>mon_hist := (mon_hist c)(mon_id \<mapsto> t)\<rparr>"

definition egg_expiration :: "Cache \<Rightarrow> string \<Rightarrow> datetime option" where
  "egg_expiration c g = egg_hist c g"

definition egg_expiration_set :: "Cache \<Rightarrow> string \<Rightarrow> datetime \<Rightarrow> Cache" where
  "egg_expiration_set c g t = c\<lparr>egg_hist := (egg_hist c)(g \<mapsto> t)\<rparr>"

definition raid_expiration :: "Cache \<Rightarrow> string \<Rightarrow> datetime option" where
  "raid_expiration c g = raid_hist c g"

definition raid_expiration_set :: "Cache \<Rightarrow> string \<Rightarrow> datetime \<Rightarrow> Cache" where
  "raid_expiration_set c g t = c\<lparr>raid_hist := (raid_hist c)(g \<mapsto> t)\<rparr>"

text \<open>Modelled from the spec: \<^verbatim>\<open>Cache.gym_name\<close>, \<^verbatim>\<open>Cache.gym_desc\<close> and
  \<^verbatim>\<open>Cache.gym_image\<close> (the Cache module is missing). A latest-value slot with
  read-modify-write semantics: a newly observed value (one that is not the
  \<^verbatim>\<open>Unknown\<close> sentinel, here \<open>None\<close>) overwrites the slot, and the call returns the
  latest known value, if any.\<close>

definition slot_rmw :: "('k \<rightharpoonup> 'v) \<Rightarrow> 'k \<Rightarrow> 'v option \<Rightarrow> ('k \<rightharpoonup> 'v) \<times> 'v option" where
  "slot_rmw slot k observed =
     (case observed of
        Some v \<Rightarrow> (slot(k \<mapsto> v), Some v)
      | None \<Rightarrow> (slot, slot k))"

definition gym_name_rmw :: "Cache \<Rightarrow> string \<Rightarrow> string option \<Rightarrow> Cache \<times> string option" where
  "gym_name_rmw c g observed =
     (let (slot, v) = slot_rmw (gym_name_slot c) g observed in (c\<lparr>gym_name_slot := slot\<rparr>, v))"

definition gym_desc_rmw :: "Cache \<Rightarrow> string \<Rightarrow> string option \<Rightarrow> Cache \<times> string option" where
  "gym_desc_rmw c g observed =
     (let (slot, v) = slot_rmw (gym_desc_slot c) g observed in (c\<lparr>gym_desc_slot := slot\<rparr>, v))"

definition gym_image_rmw :: "Cache \<Rightarrow> string \<Rightarrow> string option \<Rightarrow> Cache \<times> string option" where
  "gym_image_rmw c g observed =
     (let (slot, v) = slot_rmw (gym_image_slot c) g observed in (c\<lparr>gym_image_slot := slot\<rparr>, v))"

text \<open>Modelled from the spec: \<^verbatim>\<open>Cache.gym_team\<close> (the Cache module is missing). With a
  gym id alone it returns the latest known team id (nothing when none was observed);
  with a team id it overwrites the slot.\<close>

definition gym_team :: "Cache \<Rightarrow> string \<Rightarrow> int option" where
  "gym_team c g = gym_team_slot c g"

definition gym_team_set :: "Cache \<Rightarrow> string \<Rightarrow> int \<Rightarrow> Cache" where
  "gym_team_set c g team = c\<lparr>gym_team_slot := (gym_team_slot c)(g \<mapsto> team)\<rparr>"

text \<open>Modelled from the spec: \<^verbatim>\<open>Cache.get_cell_weather\<close> and
  \<^verbatim>\<open>Cache.update_cell_weather\<close> (the Cache module is missing): the per-cell
  latest-value slot of the weather condition.\<close>

definition get_cell_weather :: "Cache \<Rightarrow> string \<Rightarrow> string option" where
  "get_cell_weather c cell = cell_weather_slot c cell"

definition update_cell_weather :: "Cache \<Rightarrow> string \<Rightarrow> string \<Rightarrow> Cache" where
  "update_cell_weather c cell cond = c\<lparr>cell_weather_slot := (cell_weather_slot c)(cell \<mapsto> cond)\<rparr>"

text \<open>Modelled from the spec: \<^verbatim>\<open>Cache.clean_and_save\<close> (the Cache module is missing).
  The sweep removes the timestamp entries whose stored time is in the past; latest-value
  slots are never swept. Persisting has no effect on the in-memory state.\<close>

definition sweep :: "datetime \<Rightarrow> ('k \<rightharpoonup> datetime) \<Rightarrow> ('k \<rightharpoonup> datetime)" where
  "sweep now hist = (\<lambda>k. case hist k of None \<Rightarrow> None | Some t \<Rightarrow> if t < now then None else Some t)"

definition clean_and_save :: "datetime \<Rightarrow> Cache \<Rightarrow> Cache" where
  "clean_and_save now c =
     c\<lparr>mon_hist := sweep now (mon_hist c),
       egg_hist := sweep now (egg_hist c),
       raid_hist := sweep now (raid_hist c)\<rparr>"

section \<open>Events\<close>

text \<open>
  The fields every event class carries: the name used in log lines, the coordinates, and
  the scratch fields the Manager completes (\<^verbatim>\<open>Unknown\<close> sentinels are \<open>None\<close>).
\<close>

record event =
  name :: string
  lat :: real
  lng :: real
  distance :: "real option"
  direction :: "string option"
  geofence :: "string option"
  geofence_list :: "string list"
  custom_dts :: "string \<rightharpoonup> dts_value"
  channel_id :: "string option"

record mon_event = event +
  monster_id :: int
  enc_id :: string
  disappear_time :: datetime

record stop_event = event +
  stop_id :: string
  stop_name :: string
  url :: string
  expiration :: datetime
  time_left :: real
  quest :: string
  reward :: string
  discord_user_id :: int

text \<open>Gym, egg and raid events all carry the gym's id and details.\<close>

record gym_details = event +
  gym_id :: string
  gym_name :: "string option"
  gym_description :: "string option"
  gym_image :: "string option"

record gym_event = gym_details +
  old_team_id :: "int option"
  new_team_id :: int

record battle_details = gym_details +
  current_team_id :: "int option"

record egg_event = battle_details +
  hatch_time :: datetime

record raid_event = battle_details +
  raid_end :: datetime

record weather_event = event +
  weather_cell_id :: string
  condition :: string

section \<open>Configuration: geofences, filters, rules, the Manager\<close>

text \<open>
  A geofence is an external object: its own name, its point containment test and its
  weather-cell overlap test are taken as given.
\<close>

record Geofence =
  gf_name :: string
  gf_contains :: "real \<Rightarrow> real \<Rightarrow> bool"
  gf_check_overlap :: "weather_event \<Rightarrow> bool"

text \<open>
  A filter of the event kind \<open>'e\<close> (the Filters module is external): its predicate
  \<^verbatim>\<open>check_event\<close>, its custom fields and its optional geofence allowlist.
  \<^verbatim>\<open>f.reject\<close> only logs.
\<close>

record 'e Filter =
  check_event :: "'e \<Rightarrow> bool"
  filt_custom_dts :: "string \<rightharpoonup> dts_value"
  filt_geofences :: "string list option"

record Rule =
  filter_names :: "string list"
  alarm_names :: "string list"

text \<open>
  The Manager's configuration. Dictionaries that are iterated are association lists in
  iteration order (their keys are distinct, as in a dict); the alarm objects are opaque
  sinks, so \<open>alarms\<close> lists the names the alarm dict holds. \<^verbatim>\<open>self.channel_id\<close> is the
  two-level channel map. The last three fields are the external helpers the processors
  call (\<^verbatim>\<open>Locale.get_pokemon_name\<close>, \<^verbatim>\<open>Utils.get_earth_dist\<close>,
  \<^verbatim>\<open>Utils.get_cardinal_dir\<close>), taken as parameters.
\<close>

record Manager =
  time_limit :: real
  location :: "(real \<times> real) option"
  units :: string
  mons_enabled :: bool
  mon_filters :: "(string \<times> mon_event Filter) list"
  stops_enabled :: bool
  stop_filters :: "(string \<times> stop_event Filter) list"
  gyms_enabled :: bool
  gym_filters :: "(string \<times> gym_event Filter) list"
  ignore_neutral :: bool
  eggs_enabled :: bool
  egg_filters :: "(string \<times> egg_event Filter) list"
  raids_enabled :: bool
  raid_filters :: "(string \<times> raid_event Filter) list"
  weather_enabled :: bool
  weather_filters :: "(string \<times> weather_event Filter) list"
  geofences :: "(string \<times> Geofence) list option"
  channel_id_map :: "string \<rightharpoonup> (string \<rightharpoonup> string)"
  alarms :: "string list"
  mon_rules :: "(string \<times> Rule) list"
  stop_rules :: "(string \<times> Rule) list"
  gym_rules :: "(string \<times> Rule) list"
  egg_rules :: "(string \<times> Rule) list"
  raid_rules :: "(string \<times> Rule) list"
  weather_rules :: "(string \<times> Rule) list"
  get_pokemon_name :: "int \<Rightarrow> string"
  get_earth_dist :: "real \<times> real \<Rightarrow> real \<times> real \<Rightarrow> string \<Rightarrow> real"
  get_cardinal_dir :: "real \<times> real \<Rightarrow> real \<times> real \<Rightarrow> string"

subsection \<open>Rules API\<close>








text \<open>
  \<^verbatim>\<open>if len(rules) == 0: rules = {"default": Rule(filters.keys(), alarms.keys())}\<close>,
  as every processor has it.
\<close>

definition rules_or_default ::
  "(string \<times> Rule) list \<Rightarrow> (string \<times> 'f) list \<Rightarrow> string list \<Rightarrow> (string \<times> Rule) list" where
  "rules_or_default rules filters alarm_keys =
     (if length rules = 0
      then [(''default'', \<lparr>filter_names = map fst filters, alarm_names = alarm_keys\<rparr>)]
      else rules)"

section \<open>Processing state\<close>

text \<open>
  What a processor leaves behind: the cache, the event with its scratch fields, the
  dispatches in the order they were issued, and the exception that ended the processing,
  if any. One dispatch is one call of a \<^verbatim>\<open>_trigger_*\<close> method: the names of the alarms it
  notified and the event as it stood at that call (its data bag is generated from it).
\<close>

record 'e pstate =
  st_cache :: Cache
  st_event :: 'e
  st_sent :: "(string list \<times> 'e) list"
  st_raised :: "py_error option"

text \<open>\<^verbatim>\<open>_trigger_mon\<close> and its siblings: one alert per alarm name that the Manager knows;
  an unknown name is logged and skipped. The optional map-service enrichments of the data
  bag are external and left out.\<close>

definition trigger :: "Manager \<Rightarrow> 'e \<Rightarrow> string list \<Rightarrow> string list \<times> 'e" where
  "trigger m e alarm_list = (filter (\<lambda>a. a \<in> set (alarms m)) alarm_list, e)"

text \<open>The distance and bearing from the reference location, when one is configured.\<close>

definition set_distance :: "Manager \<Rightarrow> 'a event_scheme \<Rightarrow> 'a event_scheme" where
  "set_distance m e =
     (case location m of
        None \<Rightarrow> e
      | Some loc \<Rightarrow>
          e\<lparr>distance := Some (get_earth_dist m (lat e, lng e) loc (units m)),
            direction := Some (get_cardinal_dir m (lat e, lng e) loc)\<rparr>)"

section \<open>Geofence matching and channel resolution\<close>

text \<open>\<^verbatim>\<open>Manager.check_geofences\<close>: the loop over the target names, then the method.\<close>

fun check_targets ::
  "(string \<times> Geofence) list \<Rightarrow> 'a event_scheme \<Rightarrow> string list \<Rightarrow> bool \<times> 'a event_scheme" where
  "check_targets gfs e [] = (False, e)"
| "check_targets gfs e (t # rest) =
     (case map_of gfs t of
        None \<Rightarrow> check_targets gfs e rest
      | Some gf \<Rightarrow>
          if gf_contains gf (lat e) (lng e) then (True, e\<lparr>geofence := Some t\<rparr>)
          else check_targets gfs e rest)"

definition check_geofences ::
  "Manager \<Rightarrow> ('a event_scheme) Filter \<Rightarrow> 'a event_scheme \<Rightarrow> bool \<times> 'a event_scheme" where
  "check_geofences m f e =
     (case geofences m of
        None \<Rightarrow> (True, e)
      | Some gfs \<Rightarrow>
          (case filt_geofences f of
             None \<Rightarrow> (True, e)
           | Some targets \<Rightarrow>
               check_targets gfs e
                 (if length targets = 1 \<and> ''all'' \<in> set targets then map fst gfs else targets)))"

text \<open>\<^verbatim>\<open>Manager.match_geofences\<close>: the names appended for a containing geofence, the loop
  over the configured names, then the method. \<^verbatim>\<open>gf_name.split('-')[1]\<close> is in range
  under its guard (lemma \<open>split_on_hyphen_length\<close>).\<close>

definition matched_names :: "string \<Rightarrow> string list" where
  "matched_names gn =
     [gn, ''All''] @ (if CHR ''-'' \<in> set gn then [split_on CHR ''-'' gn ! 1] else [])"

fun match_loop ::
  "(string \<times> Geofence) list \<Rightarrow> 'a event_scheme \<Rightarrow> string list \<Rightarrow> bool \<times> 'a event_scheme" where
  "match_loop gfs e [] = (False, e)"
| "match_loop gfs e (k # rest) =
     (case map_of gfs k of
        None \<Rightarrow> match_loop gfs e rest
      | Some gf \<Rightarrow>
          if gf_contains gf (lat e) (lng e)
          then (True, e\<lparr>geofence_list := geofence_list e @ matched_names (gf_name gf)\<rparr>)
          else match_loop gfs e rest)"

definition match_geofences :: "Manager \<Rightarrow> 'a event_scheme \<Rightarrow> bool \<times> 'a event_scheme" where
  "match_geofences m e =
     (case geofences m of
        None \<Rightarrow> (False, e)
      | Some gfs \<Rightarrow> match_loop gfs e (map fst gfs))"

text \<open>\<^verbatim>\<open>Manager.match_weather_geofences\<close>: every geofence is visited; one whose last
  name segment is already in the event's list is skipped.\<close>

fun weather_loop ::
  "(string \<times> Geofence) list \<Rightarrow> weather_event \<Rightarrow> string list \<Rightarrow> weather_event" where
  "weather_loop gfs w [] = w"
| "weather_loop gfs w (k # rest) =
     (case map_of gfs k of
        None \<Rightarrow> weather_loop gfs w rest
      | Some gf \<Rightarrow>
          if last (split_on CHR ''-'' (gf_name gf)) \<notin> set (geofence_list w) then
            (if gf_check_overlap gf w
             then weather_loop gfs
                    (w\<lparr>geofence_list := geofence_list w @ [gf_name gf] @
                         (if CHR ''-'' \<in> set (gf_name gf)
                          then [split_on CHR ''-'' (gf_name gf) ! 1] else [])\<rparr>) rest
             else weather_loop gfs w rest)
          else weather_loop gfs w rest)"

definition match_weather_geofences :: "Manager \<Rightarrow> weather_event \<Rightarrow> bool \<times> weather_event" where
  "match_weather_geofences m w =
     (case geofences m of
        None \<Rightarrow> (False, w)
      | Some gfs \<Rightarrow>
          (let w1 = weather_loop gfs w (map fst gfs) in
           if geofence_list w1 = [] then (False, w1)
           else (True, w1\<lparr>geofence_list := geofence_list w1 @ [''All'']\<rparr>)))"

text \<open>\<^verbatim>\<open>Manager.get_channel_id\<close>: the \<^verbatim>\<open>KeyError\<close> of either lookup is caught and
  answered with \<^verbatim>\<open>False\<close>; the event's channel is set only on success.\<close>

definition get_channel_id ::
  "Manager \<Rightarrow> 'a event_scheme \<Rightarrow> string \<Rightarrow> string \<Rightarrow> bool \<times> 'a event_scheme" where
  "get_channel_id m e filter_name geofence_name =
     (let api_filter_name = hd (split_on CHR ''-'' filter_name) in
      case channel_id_map m geofence_name of
        None \<Rightarrow> (False, e)
      | Some by_filter \<Rightarrow>
          (case by_filter api_filter_name of
             None \<Rightarrow> (False, e)
           | Some cid \<Rightarrow> (True, e\<lparr>channel_id := Some cid\<rparr>)))"

section \<open>Rule evaluation\<close>

text \<open>
  The rule loop of \<^verbatim>\<open>process_monster\<close>, \<^verbatim>\<open>process_stop\<close>, \<^verbatim>\<open>process_egg\<close>,
  \<^verbatim>\<open>process_raid\<close> and \<^verbatim>\<open>process_weather\<close> is the same text five times, up to the
  filter table and the alert method; it is embedded once, innermost loop first.

  For every geofence name of the event: resolve the channel, or go on with the next
  name; overlay the filter's custom fields; set the event's geofence (the first name of
  the list when the name is not a configured geofence, which raises when no geofence
  table is loaded); dispatch to the rule's alarms.
\<close>

fun notify_geofences ::
  "Manager \<Rightarrow> string \<Rightarrow> ('a event_scheme) Filter \<Rightarrow> Rule \<Rightarrow> string list \<Rightarrow>
   ('a event_scheme) pstate \<Rightarrow> ('a event_scheme) pstate" where
  "notify_geofences m f_name f rule [] s = s"
| "notify_geofences m f_name f rule (geofence_name # rest) s =
     (let (found, e1) = get_channel_id m (st_event s) f_name geofence_name in
      if \<not> found then notify_geofences m f_name f rule rest (s\<lparr>st_event := e1\<rparr>)
      else
        (let e2 = e1\<lparr>custom_dts := filt_custom_dts f\<rparr> in
         case geofences m of
           None \<Rightarrow> s\<lparr>st_event := e2, st_raised := Some AttributeError\<rparr>
         | Some gfs \<Rightarrow>
             (case (if geofence_name \<notin> set (map fst gfs)
                    then (case geofence_list e2 of [] \<Rightarrow> Inl IndexError | g0 # _ \<Rightarrow> Inr g0)
                    else Inr geofence_name) of
                Inl err \<Rightarrow> s\<lparr>st_event := e2, st_raised := Some err\<rparr>
              | Inr g \<Rightarrow>
                  (let e3 = e2\<lparr>geofence := Some g\<rparr> in
                   notify_geofences m f_name f rule rest
                     (s\<lparr>st_event := e3,
                        st_sent := st_sent s @ [trigger m e3 (alarm_names rule)]\<rparr>)))))"

text \<open>For every filter name of the rule: look the filter up (a name without a filter
  makes \<^verbatim>\<open>f.check_event\<close> raise), skip it when its predicate fails, else run the
  geofence loop over the event's geofence list.\<close>

fun notify_filters ::
  "Manager \<Rightarrow> (string \<times> ('a event_scheme) Filter) list \<Rightarrow> Rule \<Rightarrow> string list \<Rightarrow>
   ('a event_scheme) pstate \<Rightarrow> ('a event_scheme) pstate" where
  "notify_filters m filters rule [] s = s"
| "notify_filters m filters rule (f_name # rest) s =
     (case map_of filters f_name of
        None \<Rightarrow> s\<lparr>st_raised := Some AttributeError\<rparr>
      | Some f \<Rightarrow>
          if \<not> check_event f (st_event s) then notify_filters m filters rule rest s
          else
            (let s1 = notify_geofences m f_name f rule (geofence_list (st_event s)) s in
             if st_raised s1 = None then notify_filters m filters rule rest s1 else s1))"

fun notify_rules ::
  "Manager \<Rightarrow> (string \<times> ('a event_scheme) Filter) list \<Rightarrow> (string \<times> Rule) list \<Rightarrow>
   ('a event_scheme) pstate \<Rightarrow> ('a event_scheme) pstate" where
  "notify_rules m filters [] s = s"
| "notify_rules m filters ((r_name, rule) # rest) s =
     (let s1 = notify_filters m filters rule (filter_names rule) s in
      if st_raised s1 = None then notify_rules m filters rest s1 else s1)"

text \<open>The rule loop of \<^verbatim>\<open>process_gym\<close>: a filter passes when its predicate and the
  filter-restricted geofence check both pass (\<^verbatim>\<open>and\<close> does not run the check after a
  failed predicate); the first passing filter dispatches and ends the rule
  (\<^verbatim>\<open>break  # Next rule\<close>).\<close>

fun gym_filters_loop ::
  "Manager \<Rightarrow> Rule \<Rightarrow> string list \<Rightarrow> gym_event pstate \<Rightarrow> gym_event pstate" where
  "gym_filters_loop m rule [] s = s"
| "gym_filters_loop m rule (f_name # rest) s =
     (case map_of (gym_filters m) f_name of
        None \<Rightarrow> s\<lparr>st_raised := Some AttributeError\<rparr>
      | Some f \<Rightarrow>
          if \<not> check_event f (st_event s) then gym_filters_loop m rule rest s
          else
            (let (passed, e1) = check_geofences m f (st_event s) in
             if \<not> passed then gym_filters_loop m rule rest (s\<lparr>st_event := e1\<rparr>)
             else
               (let e2 = e1\<lparr>custom_dts := filt_custom_dts f\<rparr> in
                s\<lparr>st_event := e2,
                  st_sent := st_sent s @ [trigger m e2 (alarm_names rule)]\<rparr>)))"

fun gym_rules_loop ::
  "Manager \<Rightarrow> (string \<times> Rule) list \<Rightarrow> gym_event pstate \<Rightarrow> gym_event pstate" where
  "gym_rules_loop m [] s = s"
| "gym_rules_loop m ((r_name, rule) # rest) s =
     (let s1 = gym_filters_loop m rule (filter_names rule) s in
      if st_raised s1 = None then gym_rules_loop m rest s1 else s1)"

section \<open>The processors\<close>

text \<open>The state in which nothing was dispatched and nothing raised: what a dropped event
  leaves behind, and where the rule loop starts.\<close>

definition no_dispatch :: "Cache \<Rightarrow> 'e \<Rightarrow> 'e pstate" where
  "no_dispatch c e = \<lparr>st_cache = c, st_event = e, st_sent = [], st_raised = None\<rparr>"

text \<open>\<^verbatim>\<open>Manager.process_monster\<close>; \<open>now\<close> is \<^verbatim>\<open>datetime.utcnow()\<close>.\<close>

definition process_monster :: "Manager \<Rightarrow> datetime \<Rightarrow> Cache \<Rightarrow> mon_event \<Rightarrow> mon_event pstate" where
  "process_monster m now c mon0 =
     (if \<not> mons_enabled m then no_dispatch c mon0
      else
        (let mon = mon0\<lparr>name := get_pokemon_name m (monster_id mon0)\<rparr> in
         if monster_expiration c (enc_id mon) \<noteq> None then no_dispatch c mon
         else
           (let c1 = monster_expiration_set c (enc_id mon) (disappear_time mon);
                seconds_left = total_seconds (disappear_time mon - now) in
            if seconds_left < time_limit m then no_dispatch c1 mon
            else
              (let (inside, mon2) = match_geofences m (set_distance m mon) in
               if \<not> inside then no_dispatch c1 mon2
               else notify_rules m (mon_filters m)
                      (rules_or_default (mon_rules m) (mon_filters m) (alarms m))
                      (no_dispatch c1 mon2)))))"

text \<open>\<^verbatim>\<open>Manager.process_stop\<close>. The lure, dedup and time-remaining checks are commented
  out in the source, and the method does not look the geofences up.\<close>

definition process_stop :: "Manager \<Rightarrow> Cache \<Rightarrow> stop_event \<Rightarrow> stop_event pstate" where
  "process_stop m c stop0 =
     (if \<not> stops_enabled m then no_dispatch c stop0
      else notify_rules m (stop_filters m)
             (rules_or_default (stop_rules m) (stop_filters m) (alarms m))
             (no_dispatch c (set_distance m stop0)))"

text \<open>\<^verbatim>\<open>Manager.process_gym\<close>.\<close>

definition update_gym_details :: "Cache \<Rightarrow> 'a gym_details_scheme \<Rightarrow> Cache \<times> 'a gym_details_scheme" where
  "update_gym_details c e =
     (let (c1, n) = gym_name_rmw c (gym_id e) (gym_name e);
          e1 = e\<lparr>gym_name := n\<rparr>;
          (c2, d) = gym_desc_rmw c1 (gym_id e1) (gym_description e1);
          e2 = e1\<lparr>gym_description := d\<rparr>;
          (c3, i) = gym_image_rmw c2 (gym_id e2) (gym_image e2);
          e3 = e2\<lparr>gym_image := i\<rparr>
      in (c3, e3))"

definition process_gym :: "Manager \<Rightarrow> Cache \<Rightarrow> gym_event \<Rightarrow> gym_event pstate" where
  "process_gym m c gym0 =
     (let (c1, gym1) = update_gym_details c gym0 in
      if ignore_neutral m \<and> new_team_id gym1 = 0 then no_dispatch c1 gym1
      else
        (let gym2 = gym1\<lparr>old_team_id := gym_team c1 (gym_id gym1)\<rparr>;
             c2 = gym_team_set c1 (gym_id gym2) (new_team_id gym2) in
         if \<not> gyms_enabled m then no_dispatch c2 gym2
         else if Some (new_team_id gym2) = old_team_id gym2 then no_dispatch c2 gym2
         else gym_rules_loop m
                (rules_or_default (gym_rules m) (gym_filters m) (alarms m))
                (no_dispatch c2 (set_distance m gym2))))"

text \<open>\<^verbatim>\<open>Manager.process_egg\<close> and \<^verbatim>\<open>Manager.process_raid\<close>.\<close>

definition update_team_if_unknown :: "Cache \<Rightarrow> 'a battle_details_scheme \<Rightarrow> 'a battle_details_scheme" where
  "update_team_if_unknown c e =
     (if current_team_id e = None then e\<lparr>current_team_id := gym_team c (gym_id e)\<rparr> else e)"

definition process_egg :: "Manager \<Rightarrow> datetime \<Rightarrow> Cache \<Rightarrow> egg_event \<Rightarrow> egg_event pstate" where
  "process_egg m now c egg0 =
     (let (c1, egg1) = update_gym_details c egg0;
          egg = update_team_if_unknown c1 egg1 in
      if \<not> eggs_enabled m then no_dispatch c1 egg
      else if egg_expiration c1 (gym_id egg) \<noteq> None then no_dispatch c1 egg
      else
        (let c2 = egg_expiration_set c1 (gym_id egg) (hatch_time egg);
             seconds_left = total_seconds (hatch_time egg - now) in
         if seconds_left < time_limit m then no_dispatch c2 egg
         else
           (let (inside, egg2) = match_geofences m (set_distance m egg) in
            if \<not> inside then no_dispatch c2 egg2
            else notify_rules m (egg_filters m)
                   (rules_or_default (egg_rules m) (egg_filters m) (alarms m))
                   (no_dispatch c2 egg2))))"

definition process_raid :: "Manager \<Rightarrow> datetime \<Rightarrow> Cache \<Rightarrow> raid_event \<Rightarrow> raid_event pstate" where
  "process_raid m now c raid0 =
     (let (c1, raid1) = update_gym_details c raid0;
          raid = update_team_if_unknown c1 raid1 in
      if \<not> raids_enabled m then no_dispatch c1 raid
      else if raid_expiration c1 (gym_id raid) \<noteq> None then no_dispatch c1 raid
      else
        (let c2 = raid_expiration_set c1 (gym_id raid) (raid_end raid);
             seconds_left = total_seconds (raid_end raid - now) in
         if seconds_left < time_limit m then no_dispatch c2 raid
         else
           (let (inside, raid2) = match_geofences m (set_distance m raid) in
            if \<not> inside then no_dispatch c2 raid2
            else notify_rules m (raid_filters m)
                   (rules_or_default (raid_rules m) (raid_filters m) (alarms m))
                   (no_dispatch c2 raid2))))"

text \<open>\<^verbatim>\<open>Manager.process_weather\<close>.\<close>

definition process_weather :: "Manager \<Rightarrow> Cache \<Rightarrow> weather_event \<Rightarrow> weather_event pstate" where
  "process_weather m c weather =
     (if \<not> weather_enabled m then no_dispatch c weather
      else if get_cell_weather c (weather_cell_id weather) = Some (condition weather)
      then no_dispatch c weather
      else
        (let c1 = update_cell_weather c (weather_cell_id weather) (condition weather);
             (inside, weather1) = match_weather_geofences m weather in
         if \<not> inside then no_dispatch c1 weather1
         else notify_rules m (weather_filters m)
                (rules_or_default (weather_rules m) (weather_filters m) (alarms m))
                (no_dispatch c1 weather1)))"

section \<open>The data bag of a stop event\<close>

text \<open>
  The helpers of \<^verbatim>\<open>PokeAlarm.Utils\<close> that \<^verbatim>\<open>StopEvent.generate_dts\<close> calls, and the
  float format \<^verbatim>\<open>"{:.5f}".format\<close>, taken as parameters.
\<close>

record Utils =
  get_time_as_str :: "datetime \<Rightarrow> string \<Rightarrow> string \<times> string \<times> string"
  get_dist_as_str :: "real \<Rightarrow> string \<Rightarrow> string"
  get_gmaps_link :: "real \<Rightarrow> real \<Rightarrow> string"
  get_applemaps_link :: "real \<Rightarrow> real \<Rightarrow> string"
  format_5f :: "real \<Rightarrow> string"

definition opt_str :: "string option \<Rightarrow> dts_value" where
  "opt_str v = (case v of None \<Rightarrow> DUnknown | Some x \<Rightarrow> DStr x)"

text \<open>\<^verbatim>\<open>StopEvent.generate_dts\<close>: the custom fields, updated with the event's own entries
  in the order of the source (\<^verbatim>\<open>dict.update\<close>: the event's entries win).\<close>

definition generate_dts ::
  "Utils \<Rightarrow> stop_event \<Rightarrow> string \<Rightarrow> string \<Rightarrow> string \<Rightarrow> (string \<rightharpoonup> dts_value)" where
  "generate_dts u self locale timezone unit =
     (let (t0, t1, t2) = get_time_as_str u (expiration self) timezone in
      custom_dts self ++ map_of
        [(''stop_id'', DStr (stop_id self)),
         (''stop_name'', DStr (stop_name self)),
         (''stop_url'', DStr (url self)),
         (''time_left'', DStr t0),
         (''12h_time'', DStr t1),
         (''24h_time'', DStr t2),
         (''lat'', DFloat (lat self)),
         (''lng'', DFloat (lng self)),
         (''lat_5'', DStr (format_5f u (lat self))),
         (''lng_5'', DStr (format_5f u (lat self))),
         (''distance'',
            (case distance self of
               Some d \<Rightarrow> DStr (get_dist_as_str u d unit)
             | None \<Rightarrow> DUnknown)),
         (''direction'', opt_str (direction self)),
         (''gmaps'', DStr (get_gmaps_link u (lat self) (lng self))),
         (''applemaps'', DStr (get_applemaps_link u (lat self) (lng self))),
         (''geofence'', opt_str (geofence self)),
         (''geofence_list'', DList (geofence_list self)),
         (''channel_id'', opt_str (channel_id self)),
         (''quest'', DStr (quest self)),
         (''reward'', DStr (reward self)),
         (''submission_phrase'',
            DStr (if discord_user_id self > 0
                  then CHR 0x0A # ''**Submitted by: <@&'' @ str_nat (nat (discord_user_id self)) @ ''>''
                  else []))])"

section \<open>A small configuration for concrete runs\<close>

text \<open>
  One geofence "Lake" that contains every point, one filter "rare" per kind that accepts
  every event, one alarm "discord", a channel for ("Lake", "rare"), a minimum time
  remaining of 60 seconds, no reference location and no rules.
\<close>

definition accept_all :: "'e Filter" where
  "accept_all = \<lparr>check_event = (\<lambda>_. True), filt_custom_dts = Map.empty, filt_geofences = None\<rparr>"

definition lake :: Geofence where
  "lake = \<lparr>gf_name = ''Lake'', gf_contains = (\<lambda>_ _. True), gf_check_overlap = (\<lambda>_. True)\<rparr>"

definition ex_manager :: Manager where
  "ex_manager =
     \<lparr>time_limit = 60, location = None, units = ''km'',
      mons_enabled = True, mon_filters = [(''rare'', accept_all)],
      stops_enabled = True, stop_filters = [(''rare'', accept_all)],
      gyms_enabled = True, gym_filters = [(''rare'', accept_all)],
      ignore_neutral = False,
      eggs_enabled = True, egg_filters = [(''rare'', accept_all)],
      raids_enabled = True, raid_filters = [(''rare'', accept_all)],
      weather_enabled = True, weather_filters = [(''rare'', accept_all)],
      geofences = Some [(''Lake'', lake)],
      channel_id_map = [''Lake'' \<mapsto> [''rare'' \<mapsto> ''chan1'']],
      alarms = [''discord''],
      mon_rules = [], stop_rules = [], gym_rules = [], egg_rules = [], raid_rules = [],
      weather_rules = [],
      get_pokemon_name = (\<lambda>_. ''Mewtwo''),
      get_earth_dist = (\<lambda>_ _ _. 0),
      get_cardinal_dir = (\<lambda>_ _. ''N'')\<rparr>"

definition ex_cache :: Cache where
  "ex_cache =
     \<lparr>mon_hist = Map.empty, egg_hist = Map.empty, raid_hist = Map.empty,
      gym_name_slot = Map.empty, gym_desc_slot = Map.empty, gym_image_slot = Map.empty,
      gym_team_slot = Map.empty, cell_weather_slot = Map.empty\<rparr>"

text \<open>Events as their constructors leave them (scratch fields unset), all seen at time
  0: a creature that disappears after 120 seconds, an egg and a raid with 120 seconds
  left, a stop whose lure expired at the epoch, a gym taken by team 1, and a weather
  event.\<close>

definition ex_mon :: mon_event where
  "ex_mon =
     \<lparr>name = [], lat = 1, lng = 2, distance = None, direction = None, geofence = None,
      geofence_list = [], custom_dts = Map.empty, channel_id = None,
      monster_id = 150, enc_id = ''enc1'', disappear_time = 120000000\<rparr>"

definition ex_stop :: stop_event where
  "ex_stop =
     \<lparr>name = ''stop1'', lat = 1, lng = 2, distance = None, direction = None, geofence = None,
      geofence_list = [], custom_dts = Map.empty, channel_id = None,
      stop_id = ''stop1'', stop_name = ''Fountain'', url = ''http://img'', expiration = 0,
      time_left = 0, quest = ''Catch 3'', reward = ''Berry'', discord_user_id = 0\<rparr>"

definition ex_gym :: gym_event where
  "ex_gym =
     \<lparr>name = ''gym1'', lat = 1, lng = 2, distance = None, direction = None, geofence = None,
      geofence_list = [], custom_dts = Map.empty, channel_id = None,
      gym_id = ''gym1'', gym_name = Some ''Tower'', gym_description = None, gym_image = None,
      old_team_id = None, new_team_id = 1\<rparr>"

definition ex_egg :: egg_event where
  "ex_egg =
     \<lparr>name = ''gym1'', lat = 1, lng = 2, distance = None, direction = None, geofence = None,
      geofence_list = [], custom_dts = Map.empty, channel_id = None,
      gym_id = ''gym1'', gym_name = None, gym_description = None, gym_image = None,
      current_team_id = None, hatch_time = 120000000\<rparr>"

definition ex_raid :: raid_event where
  "ex_raid =
     \<lparr>name = ''gym1'', lat = 1, lng = 2, distance = None, direction = None, geofence = None,
      geofence_list = [], custom_dts = Map.empty, channel_id = None,
      gym_id = ''gym1'', gym_name = None, gym_description = None, gym_image = None,
      current_team_id = None, raid_end = 120000000\<rparr>"

definition ex_weather :: weather_event where
  "ex_weather =
     \<lparr>name = ''cell1'', lat = 1, lng = 2, distance = None, direction = None, geofence = None,
      geofence_list = [], custom_dts = Map.empty, channel_id = None,
      weather_cell_id = ''cell1'', condition = ''RAIN''\<rparr>"

text \<open>For the gym rule loop: a filter that rejects every event, a Manager whose gym filters
  are "never" (rejecting), "rare" and "common" (accepting), and a rule over the three.
  For the channel lookup: the creature as \<^verbatim>\<open>match_geofences\<close> leaves it.\<close>

definition reject_all :: "'e Filter" where
  "reject_all = \<lparr>check_event = (\<lambda>_. False), filt_custom_dts = Map.empty, filt_geofences = None\<rparr>"

definition ex_gym_manager :: Manager where
  "ex_gym_manager =
     ex_manager\<lparr>gym_filters := [(''never'', reject_all), (''rare'', accept_all), (''common'', accept_all)]\<rparr>"

definition ex_rule :: Rule where
  "ex_rule = \<lparr>filter_names = [''never'', ''rare'', ''common''], alarm_names = [''discord'']\<rparr>"

definition ex_mon_matched :: mon_event where
  "ex_mon_matched = ex_mon\<lparr>geofence_list := [''Lake'', ''All'']\<rparr>"

text \<open>For the geofence lookup: a geofence that contains no point before one with a
  hyphenated name that contains every point.\<close>

definition desert :: Geofence where
  "desert = \<lparr>gf_name = ''Desert'', gf_contains = (\<lambda>_ _. False), gf_check_overlap = (\<lambda>_. False)\<rparr>"

definition north_lake :: Geofence where
  "north_lake = \<lparr>gf_name = ''North-Lake'', gf_contains = (\<lambda>_ _. True), gf_check_overlap = (\<lambda>_. True)\<rparr>"

definition ex_geo_manager :: Manager where
  "ex_geo_manager = ex_manager\<lparr>geofences := Some [(''Desert'', desert), (''North-Lake'', north_lake)]\<rparr>"

text \<open>For the data bag: helpers whose five-decimal format tells 1 from 2. For the weather
  gate: a cache that holds "RAIN" for the cell, and the event with another condition.\<close>

definition ex_utils :: Utils where
  "ex_utils =
     \<lparr>get_time_as_str = (\<lambda>_ _. (''0s'', ''12:00:00am'', ''00:00:00'')),
      get_dist_as_str = (\<lambda>_ _. ''0m''),
      get_gmaps_link = (\<lambda>_ _. ''http://maps''),
      get_applemaps_link = (\<lambda>_ _. ''http://apple''),
      format_5f = (\<lambda>x. if x = 1 then ''1.00000'' else if x = 2 then ''2.00000'' else ''0.00000'')\<rparr>"

definition ex_rain_cache :: Cache where
  "ex_rain_cache = ex_cache\<lparr>cell_weather_slot := [''cell1'' \<mapsto> ''RAIN'']\<rparr>"

definition ex_cloudy :: weather_event where
  "ex_cloudy = ex_weather\<lparr>condition := ''CLOUDY''\<rparr>"

text \<open>For the gym cache: a Manager that ignores changes to neutral, one with gym
  notifications disabled, a cache that knows team 2 for the gym, and the gym turned
  neutral (team 0).\<close>

definition ex_neutral_manager :: Manager where
  "ex_neutral_manager = ex_manager\<lparr>ignore_neutral := True\<rparr>"

definition ex_disabled_manager :: Manager where
  "ex_disabled_manager = ex_manager\<lparr>gyms_enabled := False\<rparr>"

definition ex_team_cache :: Cache where
  "ex_team_cache = ex_cache\<lparr>gym_team_slot := [''gym1'' \<mapsto> 2]\<rparr>"

definition ex_neutral_gym :: gym_event where
  "ex_neutral_gym = ex_gym\<lparr>new_team_id := 0\<rparr>"





section \<open>Facts about the helpers\<close>

text \<open>Evaluation of \<open>bit_length\<close> on literals, and the seconds of the deltas used
  below. The last one is a delta of 3170 years less one microsecond: its seconds round
  up to \<open>10^11\<close>.\<close>

lemma bit_length_0 [simp]: "bit_length 0 = 0"
  by (simp add: bit_length.simps [of 0])

lemma bit_length_1 [simp]: "bit_length 1 = 1"
  by (subst bit_length.simps) simp

lemma bit_length_numeral [simp]:
  "bit_length (numeral k) = Suc (bit_length (numeral k div 2))"
  by (subst bit_length.simps) simp

lemma total_seconds_0: "total_seconds 0 = 0"
  by (simp add: total_seconds_def true_div_def)

lemma total_seconds_20: "total_seconds 20000000 = 20"
  by (simp add: total_seconds_def true_div_def round_half_even_def Let_def)

lemma total_seconds_120: "total_seconds 120000000 = 120"
  by (simp add: total_seconds_def true_div_def round_half_even_def Let_def)

lemma total_seconds_rounds: "total_seconds 99999999999999999 = 100000000000"
  by (simp add: total_seconds_def true_div_def round_half_even_def Let_def)

lemmas seconds_simps = total_seconds_0 total_seconds_20 total_seconds_120

lemmas ex_defs = ex_manager_def ex_cache_def ex_mon_def ex_stop_def ex_gym_def ex_egg_def ex_raid_def ex_weather_def lake_def accept_all_def
lemmas run_defs = process_monster_def  monster_expiration_def
    monster_expiration_set_def seconds_simps no_dispatch_def match_geofences_def set_distance_def
     matched_names_def rules_or_default_def  get_channel_id_def trigger_def Let_def

lemma update_gym_details_hist [simp]:
  "egg_hist (fst (update_gym_details c e)) = egg_hist c"
  "raid_hist (fst (update_gym_details c e)) = raid_hist c"
  "mon_hist (fst (update_gym_details c e)) = mon_hist c"
  "gym_team_slot (fst (update_gym_details c e)) = gym_team_slot c"
  "cell_weather_slot (fst (update_gym_details c e)) = cell_weather_slot c"
  by (simp_all add: update_gym_details_def gym_name_rmw_def gym_desc_rmw_def gym_image_rmw_def
      split_def Let_def)

lemma update_gym_details_id [simp]:
  "gym_id (snd (update_gym_details c e)) = gym_id e"
  by (simp add: update_gym_details_def gym_name_rmw_def gym_desc_rmw_def gym_image_rmw_def
      split_def Let_def)

lemma update_gym_details_more [simp]:
  "gym_details.more (snd (update_gym_details c e)) = gym_details.more e"
  by (simp add: update_gym_details_def gym_name_rmw_def gym_desc_rmw_def gym_image_rmw_def
      split_def Let_def)

lemma update_team_if_unknown_fields [simp]:
  "gym_id (update_team_if_unknown c e) = gym_id e"
  "battle_details.more (update_team_if_unknown c e) = battle_details.more e"
  by (simp_all add: update_team_if_unknown_def)

text \<open>The rule loops never touch the cache.\<close>

lemma notify_geofences_cache [simp]:
  "st_cache (notify_geofences m f_name f rule gs s) = st_cache s"
  by (induction gs arbitrary: s)
    (simp_all add: Let_def split: prod.splits option.splits sum.splits list.splits)

lemma notify_filters_cache [simp]:
  "st_cache (notify_filters m filters rule fs s) = st_cache s"
  by (induction fs arbitrary: s) (simp_all add: Let_def split: option.splits)

lemma notify_rules_cache [simp]:
  "st_cache (notify_rules m filters rules s) = st_cache s"
  by (induction rules arbitrary: s) (auto simp: Let_def)

section \<open>The dedup gate\<close>

text \<open>
  Claim C1. A creature, egg or raid event whose entity id (encounter id, gym id) has a
  suppression entry in its kind's store that has not expired at processing time
  triggers no dispatch (and raises nothing), whatever the filters, rules, geofences and
  flags of the Manager are.
\<close>

theorem dedup_hit_never_dispatches:
  "(monster_expiration c (enc_id mon) = Some t \<and> now < t \<longrightarrow>
      st_sent (process_monster m now c mon) = [] \<and> st_raised (process_monster m now c mon) = None) \<and>
   (egg_expiration c (gym_id egg) = Some t \<and> now < t \<longrightarrow>
      st_sent (process_egg m now c egg) = [] \<and> st_raised (process_egg m now c egg) = None) \<and>
   (raid_expiration c (gym_id raid) = Some t \<and> now < t \<longrightarrow>
      st_sent (process_raid m now c raid) = [] \<and> st_raised (process_raid m now c raid) = None)"
proof (intro conjI impI)
  assume "monster_expiration c (enc_id mon) = Some t \<and> now < t"
  then show "st_sent (process_monster m now c mon) = []" "st_raised (process_monster m now c mon) = None"
    by (simp_all add: process_monster_def no_dispatch_def monster_expiration_def)
next
  assume "egg_expiration c (gym_id egg) = Some t \<and> now < t"
  then show "st_sent (process_egg m now c egg) = []" "st_raised (process_egg m now c egg) = None"
    by (simp_all add: process_egg_def no_dispatch_def egg_expiration_def split_def Let_def)
next
  assume "raid_expiration c (gym_id raid) = Some t \<and> now < t"
  then show "st_sent (process_raid m now c raid) = []" "st_raised (process_raid m now c raid) = None"
    by (simp_all add: process_raid_def no_dispatch_def raid_expiration_def split_def Let_def)
qed


theorem dedup_hit_never_dispatches_witness:
  "monster_expiration (ex_cache\<lparr>mon_hist := [''enc1'' \<mapsto> 120000000]\<rparr>) (enc_id ex_mon) = Some 120000000 \<and>
   (0::int) < 120000000 \<and>
   st_sent (process_monster ex_manager 0 (ex_cache\<lparr>mon_hist := [''enc1'' \<mapsto> 120000000]\<rparr>) ex_mon) = [] \<and>
   map fst (st_sent (process_monster ex_manager 0 ex_cache ex_mon)) = [[''discord'']] \<and>
   egg_expiration (ex_cache\<lparr>egg_hist := [''gym1'' \<mapsto> 120000000]\<rparr>) (gym_id ex_egg) = Some 120000000 \<and>
   st_sent (process_egg ex_manager 0 (ex_cache\<lparr>egg_hist := [''gym1'' \<mapsto> 120000000]\<rparr>) ex_egg) = [] \<and>
   map fst (st_sent (process_egg ex_manager 0 ex_cache ex_egg)) = [[''discord'']] \<and>
   raid_expiration (ex_cache\<lparr>raid_hist := [''gym1'' \<mapsto> 120000000]\<rparr>) (gym_id ex_raid) = Some 120000000 \<and>
   st_sent (process_raid ex_manager 0 (ex_cache\<lparr>raid_hist := [''gym1'' \<mapsto> 120000000]\<rparr>) ex_raid) = [] \<and>
   map fst (st_sent (process_raid ex_manager 0 ex_cache ex_raid)) = [[''discord'']]"
proof -
  have h1: "monster_expiration (ex_cache\<lparr>mon_hist := [''enc1'' \<mapsto> 120000000]\<rparr>) (enc_id ex_mon) = Some 120000000"
    by (simp add: monster_expiration_def ex_mon_def)
  have h2: "egg_expiration (ex_cache\<lparr>egg_hist := [''gym1'' \<mapsto> 120000000]\<rparr>) (gym_id ex_egg) = Some 120000000"
    by (simp add: egg_expiration_def ex_egg_def)
  have h3: "raid_expiration (ex_cache\<lparr>raid_hist := [''gym1'' \<mapsto> 120000000]\<rparr>) (gym_id ex_raid) = Some 120000000"
    by (simp add: raid_expiration_def ex_raid_def)
  have d1: "map fst (st_sent (process_monster ex_manager 0 ex_cache ex_mon)) = [[''discord'']]"
    by (simp add: ex_defs run_defs)
  have d2: "map fst (st_sent (process_egg ex_manager 0 ex_cache ex_egg)) = [[''discord'']]"
    by (simp add: ex_defs run_defs process_egg_def egg_expiration_def egg_expiration_set_def
        update_gym_details_def update_team_if_unknown_def gym_name_rmw_def gym_desc_rmw_def
        gym_image_rmw_def slot_rmw_def gym_team_def)
  have d3: "map fst (st_sent (process_raid ex_manager 0 ex_cache ex_raid)) = [[''discord'']]"
    by (simp add: ex_defs run_defs process_raid_def raid_expiration_def raid_expiration_set_def
        update_gym_details_def update_team_if_unknown_def gym_name_rmw_def gym_desc_rmw_def
        gym_image_rmw_def slot_rmw_def gym_team_def)
  from h1 h2 h3 d1 d2 d3
    dedup_hit_never_dispatches [where c = "ex_cache\<lparr>mon_hist := [''enc1'' \<mapsto> 120000000]\<rparr>"
      and mon = ex_mon and t = 120000000 and now = 0 and m = ex_manager]
    dedup_hit_never_dispatches [where c = "ex_cache\<lparr>egg_hist := [''gym1'' \<mapsto> 120000000]\<rparr>"
      and egg = ex_egg and t = 120000000 and now = 0 and m = ex_manager]
    dedup_hit_never_dispatches [where c = "ex_cache\<lparr>raid_hist := [''gym1'' \<mapsto> 120000000]\<rparr>"
      and raid = ex_raid and t = 120000000 and now = 0 and m = ex_manager]
  show ?thesis by simp
qed


section \<open>The time-remaining gate\<close>

text \<open>
  The stop processor has its lure, dedup and time-remaining checks commented out, and
  it never looks the geofences up: a stop whose geofence list is unset (empty, as
  \<^verbatim>\<open>StopEvent.__init__\<close> leaves it, and nothing else sets it) goes through the rule
  loop without a single dispatch.
\<close>

lemma set_distance_geofence_list [simp]:
  "geofence_list (set_distance m e) = geofence_list e"
  by (simp add: set_distance_def split: option.splits)

lemma notify_filters_no_names:
  "geofence_list (st_event s) = [] \<Longrightarrow>
   st_sent (notify_filters m filters rule fs s) = st_sent s \<and>
   st_event (notify_filters m filters rule fs s) = st_event s"
  by (induction fs arbitrary: s) (simp_all add: Let_def split: option.splits)

lemma notify_rules_no_names:
  "geofence_list (st_event s) = [] \<Longrightarrow>
   st_sent (notify_rules m filters rules s) = st_sent s \<and>
   st_event (notify_rules m filters rules s) = st_event s"
proof (induction rules arbitrary: s)
  case Nil
  then show ?case by simp
next
  case (Cons a rules)
  obtain r_name rule where a: "a = (r_name, rule)" by (cases a)
  let ?s1 = "notify_filters m filters rule (filter_names rule) s"
  from Cons.prems have 1: "st_sent ?s1 = st_sent s \<and> st_event ?s1 = st_event s"
    by (rule notify_filters_no_names)
  with Cons.prems have "geofence_list (st_event ?s1) = []" by simp
  then have "st_sent (notify_rules m filters rules ?s1) = st_sent ?s1 \<and>
     st_event (notify_rules m filters rules ?s1) = st_event ?s1"
    by (rule Cons.IH)
  with 1 show ?case by (simp add: a Let_def)
qed

lemma process_stop_no_names:
  "geofence_list stop = [] \<Longrightarrow> st_sent (process_stop m c stop) = []"
  by (simp add: process_stop_def no_dispatch_def notify_rules_no_names)

text \<open>
  Claim C2. The time remaining is the number of seconds that \<^verbatim>\<open>total_seconds()\<close>
  gives for the event's end time (disappear time, hatch time, raid end, lure
  expiration) less the time of processing. A creature, egg or raid event whose time
  remaining is strictly below the configured minimum triggers no dispatch (and raises
  nothing), whatever the filters and rules are; and neither does a stop event, as its
  constructor builds it.
\<close>

theorem time_gate_never_dispatches:
  "(total_seconds (disappear_time mon - now) < time_limit m \<longrightarrow>
      st_sent (process_monster m now c mon) = [] \<and> st_raised (process_monster m now c mon) = None) \<and>
   (total_seconds (hatch_time egg - now) < time_limit m \<longrightarrow>
      st_sent (process_egg m now c egg) = [] \<and> st_raised (process_egg m now c egg) = None) \<and>
   (total_seconds (raid_end raid - now) < time_limit m \<longrightarrow>
      st_sent (process_raid m now c raid) = [] \<and> st_raised (process_raid m now c raid) = None) \<and>
   (geofence_list stop = [] \<and> total_seconds (expiration stop - now) < time_limit m \<longrightarrow>
      st_sent (process_stop m c stop) = [])"
  by (simp add: process_monster_def process_egg_def process_raid_def no_dispatch_def split_def Let_def
      update_team_if_unknown_def update_gym_details_def process_stop_no_names)

theorem time_gate_never_dispatches_witness:
  "total_seconds (disappear_time ex_mon - 100000000) < time_limit ex_manager \<and>
   st_sent (process_monster ex_manager 100000000 ex_cache ex_mon) = [] \<and>
   map fst (st_sent (process_monster ex_manager 0 ex_cache ex_mon)) = [[''discord'']] \<and>
   total_seconds (hatch_time ex_egg - 100000000) < time_limit ex_manager \<and>
   st_sent (process_egg ex_manager 100000000 ex_cache ex_egg) = [] \<and>
   total_seconds (raid_end ex_raid - 100000000) < time_limit ex_manager \<and>
   st_sent (process_raid ex_manager 100000000 ex_cache ex_raid) = [] \<and>
   geofence_list ex_stop = [] \<and>
   total_seconds (expiration ex_stop - 0) < time_limit ex_manager \<and>
   st_sent (process_stop ex_manager ex_cache ex_stop) = []"
proof -
  have h1: "total_seconds (disappear_time ex_mon - 100000000) < time_limit ex_manager"
    by (simp add: seconds_simps ex_mon_def ex_manager_def)
  have h2: "total_seconds (hatch_time ex_egg - 100000000) < time_limit ex_manager"
    by (simp add: seconds_simps ex_egg_def ex_manager_def)
  have h3: "total_seconds (raid_end ex_raid - 100000000) < time_limit ex_manager"
    by (simp add: seconds_simps ex_raid_def ex_manager_def)
  have h4: "geofence_list ex_stop = [] \<and> total_seconds (expiration ex_stop - 0) < time_limit ex_manager"
    by (simp add: seconds_simps ex_stop_def ex_manager_def)
  have d1: "map fst (st_sent (process_monster ex_manager 0 ex_cache ex_mon)) = [[''discord'']]"
    by (simp add: ex_defs run_defs)
  from h1 h2 h3 h4 d1
    time_gate_never_dispatches [where mon = ex_mon and now = 100000000 and m = ex_manager
      and c = ex_cache and egg = ex_egg and raid = ex_raid]
    time_gate_never_dispatches [where stop = ex_stop and now = 0 and m = ex_manager
      and c = ex_cache]
  show ?thesis by simp
qed

section \<open>The expiration is recorded before the time gate\<close>





lemma clean_and_save_hist [simp]:
  "mon_hist (clean_and_save sw c) = sweep sw (mon_hist c)"
  "egg_hist (clean_and_save sw c) = sweep sw (egg_hist c)"
  "raid_hist (clean_and_save sw c) = sweep sw (raid_hist c)"
  by (simp_all add: clean_and_save_def)














section \<open>No rule is the rule of all filters and all alarms\<close>













section \<open>Gym rules dispatch at most once\<close>

lemma check_targets_fail: "\<not> fst (check_targets gfs e ts) \<Longrightarrow> snd (check_targets gfs e ts) = e"
  by (induction ts) (auto split: option.splits if_splits)

lemma check_geofences_fail: "\<not> fst (check_geofences m f e) \<Longrightarrow> snd (check_geofences m f e) = e"
  by (auto simp: check_geofences_def check_targets_fail split: option.splits)

lemma gym_filters_loop_sent:
  "length (st_sent (gym_filters_loop m rule fs s)) \<le> Suc (length (st_sent s))"
proof (induction fs arbitrary: s)
  case Nil
  then show ?case by simp
next
  case (Cons a fs)
  have ih: "length (st_sent (gym_filters_loop m rule fs s')) \<le> Suc (length (st_sent s))"
    if "st_sent s' = st_sent s" for s'
    using Cons.IH [of s'] that by simp
  show ?case
    by (auto simp: Let_def ih split: option.splits prod.splits)
qed

lemma gym_rules_loop_sent:
  "length (st_sent (gym_rules_loop m rules s)) \<le> length (st_sent s) + length rules"
proof (induction rules arbitrary: s)
  case Nil
  then show ?case by simp
next
  case (Cons a rules)
  obtain r_name rule where a: "a = (r_name, rule)" by (cases a)
  let ?s1 = "gym_filters_loop m rule (filter_names rule) s"
  have 1: "length (st_sent ?s1) \<le> Suc (length (st_sent s))"
    by (rule gym_filters_loop_sent)
  have 2: "length (st_sent (gym_rules_loop m rules ?s1)) \<le> length (st_sent ?s1) + length rules"
    by (rule Cons.IH)
  from 1 2 show ?case by (simp add: a Let_def)
qed

text \<open>
  Claim C4. For a gym event, the evaluation of one rule issues at most one dispatch, and
  the whole rule loop at most one per rule. Evaluation of the rule's filters stops at
  the first filter whose predicate and geofence check both pass: the outcome is then
  the dispatch for that filter, whatever filter names follow it in the rule (they are
  not evaluated); a filter that does not pass is skipped and leaves the state as it was.
\<close>

theorem gym_rule_dispatches_at_most_once:
  "length (st_sent (gym_filters_loop m rule fs s)) \<le> Suc (length (st_sent s)) \<and>
   length (st_sent (gym_rules_loop m rules s)) \<le> length (st_sent s) + length rules \<and>
   (map_of (gym_filters m) f_name = Some f \<and>
    check_event f (st_event s) \<and> fst (check_geofences m f (st_event s)) \<longrightarrow>
      gym_filters_loop m rule (f_name # rest) s =
        s\<lparr>st_event := (snd (check_geofences m f (st_event s)))\<lparr>custom_dts := filt_custom_dts f\<rparr>,
          st_sent := st_sent s @
            [trigger m ((snd (check_geofences m f (st_event s)))\<lparr>custom_dts := filt_custom_dts f\<rparr>)
               (alarm_names rule)]\<rparr>) \<and>
   (map_of (gym_filters m) f_name = Some f \<and>
    \<not> (check_event f (st_event s) \<and> fst (check_geofences m f (st_event s))) \<longrightarrow>
      gym_filters_loop m rule (f_name # rest) s = gym_filters_loop m rule rest s)"
proof (intro conjI impI)
  show "length (st_sent (gym_filters_loop m rule fs s)) \<le> Suc (length (st_sent s))"
    by (rule gym_filters_loop_sent)
  show "length (st_sent (gym_rules_loop m rules s)) \<le> length (st_sent s) + length rules"
    by (rule gym_rules_loop_sent)
next
  assume "map_of (gym_filters m) f_name = Some f \<and>
    check_event f (st_event s) \<and> fst (check_geofences m f (st_event s))"
  then show "gym_filters_loop m rule (f_name # rest) s =
        s\<lparr>st_event := (snd (check_geofences m f (st_event s)))\<lparr>custom_dts := filt_custom_dts f\<rparr>,
          st_sent := st_sent s @
            [trigger m ((snd (check_geofences m f (st_event s)))\<lparr>custom_dts := filt_custom_dts f\<rparr>)
               (alarm_names rule)]\<rparr>"
    by (simp add: Let_def split_def)
next
  assume h: "map_of (gym_filters m) f_name = Some f \<and>
    \<not> (check_event f (st_event s) \<and> fst (check_geofences m f (st_event s)))"
  show "gym_filters_loop m rule (f_name # rest) s = gym_filters_loop m rule rest s"
  proof (cases "check_event f (st_event s)")
    case False
    with h show ?thesis by simp
  next
    case True
    with h have "\<not> fst (check_geofences m f (st_event s))" by simp
    with h True show ?thesis
      by (simp add: Let_def split_def check_geofences_fail)
  qed
qed

theorem gym_rule_dispatches_at_most_once_witness:
  "map_of (gym_filters ex_gym_manager) ''never'' = Some reject_all \<and>
   \<not> (check_event (reject_all :: gym_event Filter) (st_event (no_dispatch ex_cache ex_gym)) \<and>
      fst (check_geofences ex_gym_manager reject_all (st_event (no_dispatch ex_cache ex_gym)))) \<and>
   map_of (gym_filters ex_gym_manager) ''rare'' = Some accept_all \<and>
   check_event (accept_all :: gym_event Filter) (st_event (no_dispatch ex_cache ex_gym)) \<and>
   fst (check_geofences ex_gym_manager (accept_all :: gym_event Filter)
          (st_event (no_dispatch ex_cache ex_gym))) \<and>
   gym_filters_loop ex_gym_manager ex_rule [''never'', ''rare'', ''common''] (no_dispatch ex_cache ex_gym)
     = gym_filters_loop ex_gym_manager ex_rule [''rare''] (no_dispatch ex_cache ex_gym) \<and>
   map fst (st_sent (gym_filters_loop ex_gym_manager ex_rule [''never'', ''rare'', ''common'']
     (no_dispatch ex_cache ex_gym))) = [[''discord'']] \<and>
   length (st_sent (gym_rules_loop ex_gym_manager [(''r1'', ex_rule), (''r2'', ex_rule)]
     (no_dispatch ex_cache ex_gym))) \<le> 2"
proof -
  let ?s = "no_dispatch ex_cache ex_gym :: gym_event pstate"
  have h1: "map_of (gym_filters ex_gym_manager) ''never'' = Some reject_all \<and>
     \<not> (check_event (reject_all :: gym_event Filter) (st_event ?s) \<and>
        fst (check_geofences ex_gym_manager (reject_all :: gym_event Filter) (st_event ?s)))"
    by (simp add: ex_gym_manager_def ex_manager_def reject_all_def)
  have h2: "map_of (gym_filters ex_gym_manager) ''rare'' = Some accept_all \<and>
     check_event (accept_all :: gym_event Filter) (st_event ?s) \<and>
     fst (check_geofences ex_gym_manager (accept_all :: gym_event Filter) (st_event ?s))"
    by (simp add: ex_gym_manager_def ex_manager_def accept_all_def check_geofences_def)
  note t = gym_rule_dispatches_at_most_once [where m = ex_gym_manager and rule = ex_rule and s = ?s]
  from h1 t [where f_name = "''never''" and f = reject_all and rest = "[''rare'', ''common'']"]
  have a: "gym_filters_loop ex_gym_manager ex_rule [''never'', ''rare'', ''common''] ?s
      = gym_filters_loop ex_gym_manager ex_rule [''rare'', ''common''] ?s"
    by blast
  let ?e = "(snd (check_geofences ex_gym_manager (accept_all :: gym_event Filter) (st_event ?s)))
      \<lparr>custom_dts := filt_custom_dts (accept_all :: gym_event Filter)\<rparr>"
  let ?X = "?s\<lparr>st_event := ?e, st_sent := st_sent ?s @ [trigger ex_gym_manager ?e (alarm_names ex_rule)]\<rparr>"
  from h2 t [where f_name = "''rare''" and f = accept_all and rest = "[''common'']"]
  have e1: "gym_filters_loop ex_gym_manager ex_rule [''rare'', ''common''] ?s = ?X"
    by blast
  from h2 t [where f_name = "''rare''" and f = accept_all and rest = "[]"]
  have e2: "gym_filters_loop ex_gym_manager ex_rule [''rare''] ?s = ?X"
    by blast
  have b: "gym_filters_loop ex_gym_manager ex_rule [''rare'', ''common''] ?s
      = gym_filters_loop ex_gym_manager ex_rule [''rare''] ?s"
    by (rule trans [OF e1 e2 [symmetric]])
  have c: "map fst (st_sent (gym_filters_loop ex_gym_manager ex_rule [''rare''] ?s)) = [[''discord'']]"
    by (simp add: ex_gym_manager_def ex_defs ex_rule_def no_dispatch_def check_geofences_def
        trigger_def Let_def)
  from t [where rules = "[(''r1'', ex_rule), (''r2'', ex_rule)]"]
  have d0: "length (st_sent (gym_rules_loop ex_gym_manager [(''r1'', ex_rule), (''r2'', ex_rule)] ?s))
      \<le> length (st_sent ?s) + length [(''r1'', ex_rule), (''r2'', ex_rule)]"
    by blast
  have l: "length (st_sent ?s) + length [(''r1'', ex_rule), (''r2'', ex_rule)] = 2"
    by (simp add: no_dispatch_def)
  from d0 l
  have d: "length (st_sent (gym_rules_loop ex_gym_manager [(''r1'', ex_rule), (''r2'', ex_rule)] ?s)) \<le> 2"
    by linarith
  from a b have ab: "gym_filters_loop ex_gym_manager ex_rule [''never'', ''rare'', ''common''] ?s
      = gym_filters_loop ex_gym_manager ex_rule [''rare''] ?s"
    by (rule trans)
  from c ab have c': "map fst (st_sent (gym_filters_loop ex_gym_manager ex_rule
      [''never'', ''rare'', ''common''] ?s)) = [[''discord'']]"
    by (simp only:)
  from h1 h2 ab c' d show ?thesis by blast
qed

section \<open>A missing channel is a soft failure\<close>

lemma notify_geofences_no_channel:
  assumes "\<forall>g \<in> set gs. \<not> fst (get_channel_id m e f_name g)" "st_event s = e"
  shows "notify_geofences m f_name f rule gs s = s"
  using assms
proof (induction gs arbitrary: s)
  case Nil
  then show ?case by simp
next
  case (Cons g gs)
  from Cons.prems have n: "\<not> fst (get_channel_id m (st_event s) f_name g)" by simp
  then have u: "snd (get_channel_id m (st_event s) f_name g) = st_event s"
    by (simp add: get_channel_id_def Let_def split: option.splits)
  from n u have "notify_geofences m f_name f rule (g # gs) s = notify_geofences m f_name f rule gs s"
    by (simp add: split_def)
  with Cons show ?case by simp
qed

lemma get_channel_id_absent:
  "channel_id_map m g = None \<or>
   (\<exists>by_filter. channel_id_map m g = Some by_filter \<and>
      by_filter (hd (split_on CHR ''-'' f_name)) = None) \<Longrightarrow>
   get_channel_id m e f_name g = (False, e)"
  by (auto simp: get_channel_id_def)

text \<open>
  Claim C6. When the channel map has no entry for the geofence name, or its entry for
  the geofence name has none for the filter name's leading hyphen-separated segment,
  \<^verbatim>\<open>get_channel_id\<close> answers \<^verbatim>\<open>False\<close> and leaves the event as it was; the geofence
  loop then issues no dispatch for that pair, raises nothing, and goes on with the next
  geofence name; and when this holds for every geofence name of the event, the filter
  loop goes on with the next filter.
\<close>

theorem missing_channel_is_soft_failure:
  "(channel_id_map m g = None \<or>
    (\<exists>by_filter. channel_id_map m g = Some by_filter \<and>
       by_filter (hd (split_on CHR ''-'' f_name)) = None) \<longrightarrow>
      get_channel_id m e f_name g = (False, e) \<and>
      notify_geofences m f_name f rule (g # rest) s = notify_geofences m f_name f rule rest s) \<and>
   (st_raised s = None \<and> map_of filters f_name = Some f \<and>
    (\<forall>g \<in> set (geofence_list (st_event s)).
       channel_id_map m g = None \<or>
       (\<exists>by_filter. channel_id_map m g = Some by_filter \<and>
          by_filter (hd (split_on CHR ''-'' f_name)) = None)) \<longrightarrow>
      notify_filters m filters rule (f_name # fs) s = notify_filters m filters rule fs s)"
proof (intro conjI impI)
  assume a: "channel_id_map m g = None \<or>
    (\<exists>by_filter. channel_id_map m g = Some by_filter \<and>
       by_filter (hd (split_on CHR ''-'' f_name)) = None)"
  then show "get_channel_id m e f_name g = (False, e)"
    by (rule get_channel_id_absent)
  from a have "get_channel_id m (st_event s) f_name g = (False, st_event s)"
    by (rule get_channel_id_absent)
  then show "notify_geofences m f_name f rule (g # rest) s = notify_geofences m f_name f rule rest s"
    by simp
next
  assume a: "st_raised s = None \<and> map_of filters f_name = Some f \<and>
    (\<forall>g \<in> set (geofence_list (st_event s)).
       channel_id_map m g = None \<or>
       (\<exists>by_filter. channel_id_map m g = Some by_filter \<and>
          by_filter (hd (split_on CHR ''-'' f_name)) = None))"
  then have "\<forall>g \<in> set (geofence_list (st_event s)). \<not> fst (get_channel_id m (st_event s) f_name g)"
    by (simp add: get_channel_id_absent)
  then have "notify_geofences m f_name f rule (geofence_list (st_event s)) s = s"
    by (rule notify_geofences_no_channel) simp
  with a show "notify_filters m filters rule (f_name # fs) s = notify_filters m filters rule fs s"
    by (simp add: Let_def)
qed

theorem missing_channel_is_soft_failure_witness:
  "channel_id_map ex_manager ''All'' = None \<and>
   get_channel_id ex_manager ex_mon_matched ''rare'' ''All'' = (False, ex_mon_matched) \<and>
   notify_geofences ex_manager ''rare'' accept_all ex_rule [''All'', ''Lake''] (no_dispatch ex_cache ex_mon_matched)
     = notify_geofences ex_manager ''rare'' accept_all ex_rule [''Lake''] (no_dispatch ex_cache ex_mon_matched) \<and>
   map fst (st_sent (notify_geofences ex_manager ''rare'' accept_all ex_rule [''All'', ''Lake'']
     (no_dispatch ex_cache ex_mon_matched))) = [[''discord'']] \<and>
   st_raised (no_dispatch ex_cache ex_mon_matched) = None \<and>
   map_of [(''common-x'', accept_all), (''rare'', accept_all)] ''common-x''
     = Some (accept_all :: mon_event Filter) \<and>
   notify_filters ex_manager [(''common-x'', accept_all), (''rare'', accept_all)] ex_rule
       [''common-x'', ''rare''] (no_dispatch ex_cache ex_mon_matched)
     = notify_filters ex_manager [(''common-x'', accept_all), (''rare'', accept_all)] ex_rule
       [''rare''] (no_dispatch ex_cache ex_mon_matched) \<and>
   map fst (st_sent (notify_filters ex_manager [(''common-x'', accept_all), (''rare'', accept_all)] ex_rule
       [''common-x'', ''rare''] (no_dispatch ex_cache ex_mon_matched))) = [[''discord'']]"
proof -
  let ?s = "no_dispatch ex_cache ex_mon_matched"
  let ?fs = "[(''common-x'', accept_all :: mon_event Filter), (''rare'', accept_all)]"
  have h1: "channel_id_map ex_manager ''All'' = None"
    by (simp add: ex_manager_def)
  have h2: "st_raised ?s = None \<and> map_of ?fs ''common-x'' = Some accept_all \<and>
    (\<forall>g \<in> set (geofence_list (st_event ?s)).
       channel_id_map ex_manager g = None \<or>
       (\<exists>by_filter. channel_id_map ex_manager g = Some by_filter \<and>
          by_filter (hd (split_on CHR ''-'' ''common-x'')) = None))"
    by (simp add: no_dispatch_def ex_mon_matched_def ex_manager_def)
  note t = missing_channel_is_soft_failure [where m = ex_manager and rule = ex_rule and s = ?s]
  from h1 t [where g = "''All''" and f_name = "''rare''" and e = ex_mon_matched and f = accept_all
      and rest = "[''Lake'']"]
  have a: "get_channel_id ex_manager ex_mon_matched ''rare'' ''All'' = (False, ex_mon_matched) \<and>
     notify_geofences ex_manager ''rare'' accept_all ex_rule [''All'', ''Lake''] ?s
       = notify_geofences ex_manager ''rare'' accept_all ex_rule [''Lake''] ?s"
    by blast
  have b: "map fst (st_sent (notify_geofences ex_manager ''rare'' accept_all ex_rule [''Lake''] ?s))
     = [[''discord'']]"
    by (simp add: ex_defs ex_mon_matched_def ex_rule_def no_dispatch_def get_channel_id_def
        trigger_def Let_def)
  from h2 t [where filters = ?fs and f_name = "''common-x''" and f = accept_all and fs = "[''rare'']"]
  have c: "notify_filters ex_manager ?fs ex_rule [''common-x'', ''rare''] ?s
     = notify_filters ex_manager ?fs ex_rule [''rare''] ?s"
    by blast
  have d: "map fst (st_sent (notify_filters ex_manager ?fs ex_rule [''rare''] ?s)) = [[''discord'']]"
    by (simp add: ex_defs ex_mon_matched_def ex_rule_def no_dispatch_def get_channel_id_def
        trigger_def Let_def)
  from a b have b': "map fst (st_sent (notify_geofences ex_manager ''rare'' accept_all ex_rule
      [''All'', ''Lake''] ?s)) = [[''discord'']]"
    by (simp only:)
  from c d have d': "map fst (st_sent (notify_filters ex_manager ?fs ex_rule
      [''common-x'', ''rare''] ?s)) = [[''discord'']]"
    by (simp only:)
  from h1 h2 a b' c d' show ?thesis by blast
qed

section \<open>Match-mode geofence lookup\<close>

lemma split_on_not_Nil: "split_on c s \<noteq> []"
  by (induction s) auto

lemma split_on_hyphen_length: "c \<in> set s \<Longrightarrow> 2 \<le> length (split_on c s)"
  by (induction s) (auto simp: split_on_not_Nil Suc_le_eq)

lemma match_loop_first:
  assumes "distinct (map fst gfs)" "set xs \<subseteq> set gfs"
  shows "match_loop gfs e (map fst xs) =
     (case filter (\<lambda>(k, gf). gf_contains gf (lat e) (lng e)) xs of
        [] \<Rightarrow> (False, e)
      | (k, gf) # _ \<Rightarrow> (True, e\<lparr>geofence_list := geofence_list e @ matched_names (gf_name gf)\<rparr>))"
  using assms(2)
proof (induction xs)
  case Nil
  then show ?case by simp
next
  case (Cons x xs)
  obtain k gf where x: "x = (k, gf)" by (cases x)
  with Cons.prems have "(k, gf) \<in> set gfs" by simp
  with assms(1) have l: "map_of gfs k = Some gf" by simp
  from Cons have ih: "match_loop gfs e (map fst xs) =
     (case filter (\<lambda>(k, gf). gf_contains gf (lat e) (lng e)) xs of
        [] \<Rightarrow> (False, e)
      | (k, gf) # _ \<Rightarrow> (True, e\<lparr>geofence_list := geofence_list e @ matched_names (gf_name gf)\<rparr>))"
    by simp
  show ?case by (simp add: x l ih)
qed

text \<open>
  Claim C5. \<^verbatim>\<open>match_geofences\<close> is a function of the geofence table (in its order) and
  the event. When exactly one configured geofence contains the event's coordinates, the
  lookup succeeds with that geofence: it appends the geofence's name, "All", and, only
  if the name has a hyphen, the name's second hyphen-separated segment to the event's
  geofence list. For an event whose list was unset (empty, as the constructors leave
  it), the list afterwards holds exactly these names.
\<close>

theorem match_geofences_single_container:
  "geofences m = Some gfs \<and> distinct (map fst gfs) \<and>
   filter (\<lambda>(k, gf). gf_contains gf (lat e) (lng e)) gfs = [(k, g)] \<longrightarrow>
     match_geofences m e =
       (True, e\<lparr>geofence_list := geofence_list e @ [gf_name g, ''All''] @
                  (if CHR ''-'' \<in> set (gf_name g) then [split_on CHR ''-'' (gf_name g) ! 1] else [])\<rparr>) \<and>
     (geofence_list e = [] \<longrightarrow>
        set (geofence_list (snd (match_geofences m e))) =
          {gf_name g, ''All''} \<union>
          (if CHR ''-'' \<in> set (gf_name g) then {split_on CHR ''-'' (gf_name g) ! 1} else {}))"
proof (intro impI)
  assume a: "geofences m = Some gfs \<and> distinct (map fst gfs) \<and>
   filter (\<lambda>(k, gf). gf_contains gf (lat e) (lng e)) gfs = [(k, g)]"
  then have "match_loop gfs e (map fst gfs) =
      (True, e\<lparr>geofence_list := geofence_list e @ matched_names (gf_name g)\<rparr>)"
    by (simp add: match_loop_first)
  with a have r: "match_geofences m e =
      (True, e\<lparr>geofence_list := geofence_list e @ matched_names (gf_name g)\<rparr>)"
    by (simp add: match_geofences_def)
  show "match_geofences m e =
       (True, e\<lparr>geofence_list := geofence_list e @ [gf_name g, ''All''] @
                  (if CHR ''-'' \<in> set (gf_name g) then [split_on CHR ''-'' (gf_name g) ! 1] else [])\<rparr>) \<and>
     (geofence_list e = [] \<longrightarrow>
        set (geofence_list (snd (match_geofences m e))) =
          {gf_name g, ''All''} \<union>
          (if CHR ''-'' \<in> set (gf_name g) then {split_on CHR ''-'' (gf_name g) ! 1} else {}))"
    by (auto simp: r matched_names_def)
qed

theorem match_geofences_single_container_witness:
  "geofences ex_geo_manager = Some [(''Desert'', desert), (''North-Lake'', north_lake)] \<and>
   distinct (map fst [(''Desert'', desert), (''North-Lake'', north_lake)]) \<and>
   filter (\<lambda>(k, gf). gf_contains gf (lat ex_mon) (lng ex_mon))
     [(''Desert'', desert), (''North-Lake'', north_lake)] = [(''North-Lake'', north_lake)] \<and>
   geofence_list ex_mon = [] \<and>
   fst (match_geofences ex_geo_manager ex_mon) \<and>
   geofence_list (snd (match_geofences ex_geo_manager ex_mon)) = [''North-Lake'', ''All'', ''Lake''] \<and>
   set (geofence_list (snd (match_geofences ex_geo_manager ex_mon))) = {''North-Lake'', ''All'', ''Lake''}"
proof -
  have h: "geofences ex_geo_manager = Some [(''Desert'', desert), (''North-Lake'', north_lake)] \<and>
     distinct (map fst [(''Desert'', desert), (''North-Lake'', north_lake)]) \<and>
     filter (\<lambda>(k, gf). gf_contains gf (lat ex_mon) (lng ex_mon))
       [(''Desert'', desert), (''North-Lake'', north_lake)] = [(''North-Lake'', north_lake)]"
    by (simp add: ex_geo_manager_def ex_manager_def desert_def north_lake_def)
  have e: "geofence_list ex_mon = []"
    by (simp add: ex_mon_def)
  have n: "gf_name north_lake = ''North-Lake''"
    by (simp add: north_lake_def)
  from h match_geofences_single_container [where m = ex_geo_manager and e = ex_mon
      and gfs = "[(''Desert'', desert), (''North-Lake'', north_lake)]"
      and k = "''North-Lake''" and g = north_lake]
  have r: "match_geofences ex_geo_manager ex_mon =
       (True, ex_mon\<lparr>geofence_list := geofence_list ex_mon @ [gf_name north_lake, ''All''] @
                  (if CHR ''-'' \<in> set (gf_name north_lake)
                   then [split_on CHR ''-'' (gf_name north_lake) ! 1] else [])\<rparr>)"
    by blast
  have l: "geofence_list (snd (match_geofences ex_geo_manager ex_mon)) = [''North-Lake'', ''All'', ''Lake'']"
    by (simp add: r e n)
  from h e r l show ?thesis by simp
qed

section \<open>The longitude entries of the stop data bag\<close>

text \<open>
  Claim C10. In the data bag that \<^verbatim>\<open>StopEvent.generate_dts\<close> returns, the key
  \<^verbatim>\<open>lng_5\<close> holds the event's latitude formatted to five decimal places, the same
  value as \<^verbatim>\<open>lat_5\<close>, and the key \<^verbatim>\<open>lng\<close> holds the unformatted longitude; custom
  fields of the same names do not change that.
\<close>

theorem stop_dts_lng_5_is_latitude:
  "generate_dts u self locale timezone unit ''lng_5'' = Some (DStr (format_5f u (lat self))) \<and>
   generate_dts u self locale timezone unit ''lng_5'' = generate_dts u self locale timezone unit ''lat_5'' \<and>
   generate_dts u self locale timezone unit ''lng'' = Some (DFloat (lng self))"
  by (simp add: generate_dts_def split_def Let_def)

theorem stop_dts_lng_5_is_latitude_witness:
  "generate_dts ex_utils ex_stop ''en'' ''UTC'' ''km'' ''lng_5'' = Some (DStr ''1.00000'') \<and>
   generate_dts ex_utils ex_stop ''en'' ''UTC'' ''km'' ''lat_5'' = Some (DStr ''1.00000'') \<and>
   generate_dts ex_utils ex_stop ''en'' ''UTC'' ''km'' ''lng'' = Some (DFloat 2) \<and>
   format_5f ex_utils (lng ex_stop) = ''2.00000''"
proof -
  note t = stop_dts_lng_5_is_latitude [of ex_utils ex_stop "''en''" "''UTC''" "''km''"]
  have f1: "format_5f ex_utils (lat ex_stop) = ''1.00000''"
    by (simp add: ex_utils_def ex_stop_def)
  have f2: "format_5f ex_utils (lng ex_stop) = ''2.00000''"
    by (simp add: ex_utils_def ex_stop_def)
  have f3: "lng ex_stop = 2"
    by (simp add: ex_stop_def)
  from t have a: "generate_dts ex_utils ex_stop ''en'' ''UTC'' ''km'' ''lng_5''
      = Some (DStr (format_5f ex_utils (lat ex_stop)))"
    by (rule conjunct1)
  from t have b: "generate_dts ex_utils ex_stop ''en'' ''UTC'' ''km'' ''lng_5''
      = generate_dts ex_utils ex_stop ''en'' ''UTC'' ''km'' ''lat_5''"
    by blast
  from t have c: "generate_dts ex_utils ex_stop ''en'' ''UTC'' ''km'' ''lng'' = Some (DFloat (lng ex_stop))"
    by blast
  from a f1 have a': "generate_dts ex_utils ex_stop ''en'' ''UTC'' ''km'' ''lng_5'' = Some (DStr ''1.00000'')"
    by (simp only:)
  from a' b have b': "generate_dts ex_utils ex_stop ''en'' ''UTC'' ''km'' ''lat_5'' = Some (DStr ''1.00000'')"
    by (simp only:)
  from c f3 have c': "generate_dts ex_utils ex_stop ''en'' ''UTC'' ''km'' ''lng'' = Some (DFloat 2)"
    by (simp only:)
  from a' b' c' f2 show ?thesis by blast
qed

section \<open>The weather change gate\<close>

text \<open>
  Claim C8. A weather event whose cell is cached with the event's own condition is
  dropped: the cache is left as it was, the event is untouched, nothing is dispatched.
  When weather notifications are enabled and the cached condition differs (or the cell
  is not cached), the cell's entry is set to the new condition before anything else:
  the geofence accumulation and the rule evaluation run on the updated cache, which is
  also the final cache.
\<close>

theorem weather_change_gate:
  "(get_cell_weather c (weather_cell_id w) = Some (condition w) \<longrightarrow>
      process_weather m c w = \<lparr>st_cache = c, st_event = w, st_sent = [], st_raised = None\<rparr>) \<and>
   (weather_enabled m \<and> get_cell_weather c (weather_cell_id w) \<noteq> Some (condition w) \<longrightarrow>
      st_cache (process_weather m c w) = update_cell_weather c (weather_cell_id w) (condition w) \<and>
      get_cell_weather (st_cache (process_weather m c w)) (weather_cell_id w) = Some (condition w) \<and>
      process_weather m c w =
        (if \<not> fst (match_weather_geofences m w)
         then \<lparr>st_cache = update_cell_weather c (weather_cell_id w) (condition w),
               st_event = snd (match_weather_geofences m w), st_sent = [], st_raised = None\<rparr>
         else notify_rules m (weather_filters m)
                (rules_or_default (weather_rules m) (weather_filters m) (alarms m))
                \<lparr>st_cache = update_cell_weather c (weather_cell_id w) (condition w),
                  st_event = snd (match_weather_geofences m w), st_sent = [], st_raised = None\<rparr>))"
proof (intro conjI impI)
  assume "get_cell_weather c (weather_cell_id w) = Some (condition w)"
  then show "process_weather m c w = \<lparr>st_cache = c, st_event = w, st_sent = [], st_raised = None\<rparr>"
    by (simp add: process_weather_def no_dispatch_def)
next
  assume a: "weather_enabled m \<and> get_cell_weather c (weather_cell_id w) \<noteq> Some (condition w)"
  then show p: "process_weather m c w =
        (if \<not> fst (match_weather_geofences m w)
         then \<lparr>st_cache = update_cell_weather c (weather_cell_id w) (condition w),
               st_event = snd (match_weather_geofences m w), st_sent = [], st_raised = None\<rparr>
         else notify_rules m (weather_filters m)
                (rules_or_default (weather_rules m) (weather_filters m) (alarms m))
                \<lparr>st_cache = update_cell_weather c (weather_cell_id w) (condition w),
                  st_event = snd (match_weather_geofences m w), st_sent = [], st_raised = None\<rparr>)"
    by (simp add: process_weather_def no_dispatch_def Let_def split_def)
  then show q: "st_cache (process_weather m c w) = update_cell_weather c (weather_cell_id w) (condition w)"
    by simp
  then show "get_cell_weather (st_cache (process_weather m c w)) (weather_cell_id w) = Some (condition w)"
    by (simp add: get_cell_weather_def update_cell_weather_def)
qed


theorem weather_change_gate_witness:
  "get_cell_weather ex_rain_cache (weather_cell_id ex_weather) = Some (condition ex_weather) \<and>
   process_weather ex_manager ex_rain_cache ex_weather
     = \<lparr>st_cache = ex_rain_cache, st_event = ex_weather, st_sent = [], st_raised = None\<rparr> \<and>
   weather_enabled ex_manager \<and>
   get_cell_weather ex_rain_cache (weather_cell_id ex_cloudy) \<noteq> Some (condition ex_cloudy) \<and>
   get_cell_weather (st_cache (process_weather ex_manager ex_rain_cache ex_cloudy))
     (weather_cell_id ex_cloudy) = Some (condition ex_cloudy) \<and>
   map fst (st_sent (process_weather ex_manager ex_rain_cache ex_cloudy)) = [[''discord'']]"
proof -
  have h1: "get_cell_weather ex_rain_cache (weather_cell_id ex_weather) = Some (condition ex_weather)"
    by (simp add: get_cell_weather_def ex_rain_cache_def ex_weather_def)
  have h2: "weather_enabled ex_manager \<and>
     get_cell_weather ex_rain_cache (weather_cell_id ex_cloudy) \<noteq> Some (condition ex_cloudy)"
    by (simp add: get_cell_weather_def ex_rain_cache_def ex_cloudy_def ex_weather_def ex_manager_def)
  from h1 weather_change_gate [where c = ex_rain_cache and w = ex_weather and m = ex_manager]
  have a: "process_weather ex_manager ex_rain_cache ex_weather
     = \<lparr>st_cache = ex_rain_cache, st_event = ex_weather, st_sent = [], st_raised = None\<rparr>"
    by blast
  from h2 weather_change_gate [where c = ex_rain_cache and w = ex_cloudy and m = ex_manager]
  have b: "get_cell_weather (st_cache (process_weather ex_manager ex_rain_cache ex_cloudy))
     (weather_cell_id ex_cloudy) = Some (condition ex_cloudy)"
    by blast
  have c: "map fst (st_sent (process_weather ex_manager ex_rain_cache ex_cloudy)) = [[''discord'']]"
    by (simp add: process_weather_def ex_defs ex_rain_cache_def ex_cloudy_def get_cell_weather_def
        update_cell_weather_def match_weather_geofences_def no_dispatch_def rules_or_default_def
        get_channel_id_def trigger_def Let_def)
  from h1 h2 a b c show ?thesis by blast
qed

section \<open>The cache refresh of gym events\<close>

text \<open>The geofence check and the rule loop of gym events change the event's geofence
  and custom fields only, and never the cache.\<close>

lemma check_targets_gym_fields:
  "old_team_id (snd (check_targets gfs e ts)) = old_team_id e \<and>
   new_team_id (snd (check_targets gfs e ts)) = new_team_id e \<and>
   gym_id (snd (check_targets gfs e ts)) = gym_id e \<and>
   gym_name (snd (check_targets gfs e ts)) = gym_name e \<and>
   gym_description (snd (check_targets gfs e ts)) = gym_description e \<and>
   gym_image (snd (check_targets gfs e ts)) = gym_image e"
  by (induction ts) (auto split: option.splits)

lemma check_geofences_gym_fields:
  "old_team_id (snd (check_geofences m f e)) = old_team_id e \<and>
   new_team_id (snd (check_geofences m f e)) = new_team_id e \<and>
   gym_id (snd (check_geofences m f e)) = gym_id e \<and>
   gym_name (snd (check_geofences m f e)) = gym_name e \<and>
   gym_description (snd (check_geofences m f e)) = gym_description e \<and>
   gym_image (snd (check_geofences m f e)) = gym_image e"
  by (simp add: check_geofences_def check_targets_gym_fields split: option.splits)

lemma gym_filters_loop_keeps:
  "st_cache (gym_filters_loop m rule fs s) = st_cache s \<and>
   old_team_id (st_event (gym_filters_loop m rule fs s)) = old_team_id (st_event s) \<and>
   new_team_id (st_event (gym_filters_loop m rule fs s)) = new_team_id (st_event s) \<and>
   gym_id (st_event (gym_filters_loop m rule fs s)) = gym_id (st_event s) \<and>
   gym_name (st_event (gym_filters_loop m rule fs s)) = gym_name (st_event s) \<and>
   gym_description (st_event (gym_filters_loop m rule fs s)) = gym_description (st_event s) \<and>
   gym_image (st_event (gym_filters_loop m rule fs s)) = gym_image (st_event s)"
  by (induction fs arbitrary: s)
    (simp_all add: Let_def split_def check_geofences_gym_fields split: option.splits)

lemma gym_rules_loop_keeps:
  "st_cache (gym_rules_loop m rules s) = st_cache s \<and>
   old_team_id (st_event (gym_rules_loop m rules s)) = old_team_id (st_event s) \<and>
   new_team_id (st_event (gym_rules_loop m rules s)) = new_team_id (st_event s) \<and>
   gym_id (st_event (gym_rules_loop m rules s)) = gym_id (st_event s) \<and>
   gym_name (st_event (gym_rules_loop m rules s)) = gym_name (st_event s) \<and>
   gym_description (st_event (gym_rules_loop m rules s)) = gym_description (st_event s) \<and>
   gym_image (st_event (gym_rules_loop m rules s)) = gym_image (st_event s)"
  by (induction rules arbitrary: s) (auto simp: Let_def gym_filters_loop_keeps)

lemma set_distance_gym_fields [simp]:
  "old_team_id (set_distance m e) = old_team_id e"
  "new_team_id (set_distance m e) = new_team_id e"
  "gym_id (set_distance m e) = gym_id e"
  "gym_name (set_distance m e) = gym_name e"
  "gym_description (set_distance m e) = gym_description e"
  "gym_image (set_distance m e) = gym_image e"
  by (simp_all add: set_distance_def split: option.splits)


lemma update_gym_details_slots:
  "gym_name_slot (fst (update_gym_details c e)) (gym_id e)
     = (case gym_name e of Some n \<Rightarrow> Some n | None \<Rightarrow> gym_name_slot c (gym_id e))"
  "gym_desc_slot (fst (update_gym_details c e)) (gym_id e)
     = (case gym_description e of Some d \<Rightarrow> Some d | None \<Rightarrow> gym_desc_slot c (gym_id e))"
  "gym_image_slot (fst (update_gym_details c e)) (gym_id e)
     = (case gym_image e of Some i \<Rightarrow> Some i | None \<Rightarrow> gym_image_slot c (gym_id e))"
  "gym_team_slot (fst (update_gym_details c e)) = gym_team_slot c"
  by (simp_all add: update_gym_details_def gym_name_rmw_def gym_desc_rmw_def gym_image_rmw_def
      slot_rmw_def split_def Let_def split: option.splits)

lemma update_gym_details_event:
  "gym_name (snd (update_gym_details c e))
     = (case gym_name e of Some n \<Rightarrow> Some n | None \<Rightarrow> gym_name_slot c (gym_id e))"
  "gym_description (snd (update_gym_details c e))
     = (case gym_description e of Some d \<Rightarrow> Some d | None \<Rightarrow> gym_desc_slot c (gym_id e))"
  "gym_image (snd (update_gym_details c e))
     = (case gym_image e of Some i \<Rightarrow> Some i | None \<Rightarrow> gym_image_slot c (gym_id e))"
  "gym_id (snd (update_gym_details c e)) = gym_id e"
  by (simp_all add: update_gym_details_def gym_name_rmw_def gym_desc_rmw_def gym_image_rmw_def
      slot_rmw_def split_def Let_def split: option.splits)

lemma update_gym_details_team_ids:
  "new_team_id (snd (update_gym_details c (e :: gym_event))) = new_team_id e"
  by (simp add: update_gym_details_def gym_name_rmw_def gym_desc_rmw_def gym_image_rmw_def
      slot_rmw_def split_def Let_def split: option.splits)

lemma process_gym_cache:
  "st_cache (process_gym m c gym) =
     (if ignore_neutral m \<and> new_team_id gym = 0 then fst (update_gym_details c gym)
      else gym_team_set (fst (update_gym_details c gym)) (gym_id gym) (new_team_id gym))"
  by (simp add: process_gym_def split_def Let_def no_dispatch_def gym_rules_loop_keeps
      update_gym_details_event update_gym_details_team_ids)

lemma process_gym_event:
  "gym_name (st_event (process_gym m c gym)) = gym_name (snd (update_gym_details c gym))"
  "gym_description (st_event (process_gym m c gym)) = gym_description (snd (update_gym_details c gym))"
  "gym_image (st_event (process_gym m c gym)) = gym_image (snd (update_gym_details c gym))"
  "\<not> (ignore_neutral m \<and> new_team_id gym = 0) \<Longrightarrow>
     old_team_id (st_event (process_gym m c gym)) = gym_team (fst (update_gym_details c gym)) (gym_id gym)"
  by (auto simp: process_gym_def split_def Let_def no_dispatch_def gym_rules_loop_keeps
      update_gym_details_event update_gym_details_team_ids)


text \<open>
  Claim C7, as the source has it. For every gym event, whatever happens to it later:
  the newly observed gym name, description and image are written to the cache and the
  event carries the latest known ones. Unless the event is dropped by the
  neutral-change-ignore gate, the previously cached team id is read into the event and
  the new team id is written to the cache, also when the event is then dropped by the
  enablement gate or the no-change gate. An event dropped by the neutral-change-ignore
  gate is not dispatched and leaves the cached team id as it was.
\<close>

theorem gym_cache_refresh:
  "gym_name_slot (st_cache (process_gym m c gym)) (gym_id gym)
     = (case gym_name gym of Some n \<Rightarrow> Some n | None \<Rightarrow> gym_name_slot c (gym_id gym)) \<and>
   gym_desc_slot (st_cache (process_gym m c gym)) (gym_id gym)
     = (case gym_description gym of Some d \<Rightarrow> Some d | None \<Rightarrow> gym_desc_slot c (gym_id gym)) \<and>
   gym_image_slot (st_cache (process_gym m c gym)) (gym_id gym)
     = (case gym_image gym of Some i \<Rightarrow> Some i | None \<Rightarrow> gym_image_slot c (gym_id gym)) \<and>
   gym_name (st_event (process_gym m c gym))
     = gym_name_slot (st_cache (process_gym m c gym)) (gym_id gym) \<and>
   gym_description (st_event (process_gym m c gym))
     = gym_desc_slot (st_cache (process_gym m c gym)) (gym_id gym) \<and>
   gym_image (st_event (process_gym m c gym))
     = gym_image_slot (st_cache (process_gym m c gym)) (gym_id gym) \<and>
   (\<not> (ignore_neutral m \<and> new_team_id gym = 0) \<longrightarrow>
      old_team_id (st_event (process_gym m c gym)) = gym_team c (gym_id gym) \<and>
      gym_team (st_cache (process_gym m c gym)) (gym_id gym) = Some (new_team_id gym)) \<and>
   (ignore_neutral m \<and> new_team_id gym = 0 \<longrightarrow>
      st_sent (process_gym m c gym) = [] \<and>
      gym_team (st_cache (process_gym m c gym)) (gym_id gym) = gym_team c (gym_id gym))"
proof -
  have slots:
    "gym_name_slot (st_cache (process_gym m c gym)) = gym_name_slot (fst (update_gym_details c gym))"
    "gym_desc_slot (st_cache (process_gym m c gym)) = gym_desc_slot (fst (update_gym_details c gym))"
    "gym_image_slot (st_cache (process_gym m c gym)) = gym_image_slot (fst (update_gym_details c gym))"
    by (simp_all add: process_gym_cache gym_team_set_def)
  have team: "\<not> (ignore_neutral m \<and> new_team_id gym = 0) \<Longrightarrow>
      old_team_id (st_event (process_gym m c gym)) = gym_team c (gym_id gym) \<and>
      gym_team (st_cache (process_gym m c gym)) (gym_id gym) = Some (new_team_id gym)"
    by (auto simp: process_gym_event process_gym_cache gym_team_def gym_team_set_def
        update_gym_details_slots)
  have neutral: "ignore_neutral m \<and> new_team_id gym = 0 \<Longrightarrow>
      st_sent (process_gym m c gym) = [] \<and>
      gym_team (st_cache (process_gym m c gym)) (gym_id gym) = gym_team c (gym_id gym)"
    by (simp add: process_gym_cache gym_team_def update_gym_details_slots)
      (simp add: process_gym_def split_def Let_def no_dispatch_def update_gym_details_team_ids)
  from team neutral show ?thesis
    by (simp add: slots update_gym_details_slots process_gym_event update_gym_details_event)
qed

theorem gym_cache_refresh_witness:
  "\<not> (ignore_neutral ex_disabled_manager \<and> new_team_id ex_gym = 0) \<and>
   st_sent (process_gym ex_disabled_manager ex_team_cache ex_gym) = [] \<and>
   gym_name_slot (st_cache (process_gym ex_disabled_manager ex_team_cache ex_gym)) (gym_id ex_gym)
     = Some ''Tower'' \<and>
   old_team_id (st_event (process_gym ex_disabled_manager ex_team_cache ex_gym))
     = gym_team ex_team_cache (gym_id ex_gym) \<and>
   gym_team (st_cache (process_gym ex_disabled_manager ex_team_cache ex_gym)) (gym_id ex_gym)
     = Some (new_team_id ex_gym) \<and>
   ignore_neutral ex_neutral_manager \<and> new_team_id ex_neutral_gym = 0 \<and>
   st_sent (process_gym ex_neutral_manager ex_team_cache ex_neutral_gym) = [] \<and>
   gym_name_slot (st_cache (process_gym ex_neutral_manager ex_team_cache ex_neutral_gym))
     (gym_id ex_neutral_gym) = Some ''Tower'' \<and>
   gym_team (st_cache (process_gym ex_neutral_manager ex_team_cache ex_neutral_gym))
     (gym_id ex_neutral_gym) = gym_team ex_team_cache (gym_id ex_neutral_gym)"
proof -
  have h1: "\<not> (ignore_neutral ex_disabled_manager \<and> new_team_id ex_gym = 0)"
    by (simp add: ex_disabled_manager_def ex_manager_def)
  have h2: "ignore_neutral ex_neutral_manager \<and> new_team_id ex_neutral_gym = 0"
    by (simp add: ex_neutral_manager_def ex_neutral_gym_def)
  have n1: "gym_name ex_gym = Some ''Tower''"
    by (simp add: ex_gym_def)
  have n2: "gym_name ex_neutral_gym = Some ''Tower''"
    by (simp add: ex_neutral_gym_def ex_gym_def)
  have off: "st_sent (process_gym ex_disabled_manager ex_team_cache ex_gym) = []"
    by (simp add: process_gym_def ex_disabled_manager_def ex_manager_def ex_gym_def
        no_dispatch_def Let_def split_def update_gym_details_def gym_name_rmw_def
        gym_desc_rmw_def gym_image_rmw_def slot_rmw_def)
  note a = gym_cache_refresh [where m = ex_disabled_manager and c = ex_team_cache and gym = ex_gym]
  note b = gym_cache_refresh [where m = ex_neutral_manager and c = ex_team_cache and gym = ex_neutral_gym]
  from a have a1: "gym_name_slot (st_cache (process_gym ex_disabled_manager ex_team_cache ex_gym)) (gym_id ex_gym)
     = (case gym_name ex_gym of Some n \<Rightarrow> Some n | None \<Rightarrow> gym_name_slot ex_team_cache (gym_id ex_gym))"
    by (rule conjunct1)
  then have a1': "gym_name_slot (st_cache (process_gym ex_disabled_manager ex_team_cache ex_gym)) (gym_id ex_gym)
     = Some ''Tower''"
    by (simp only: n1 option.case)
  from a h1 have a2: "old_team_id (st_event (process_gym ex_disabled_manager ex_team_cache ex_gym))
       = gym_team ex_team_cache (gym_id ex_gym) \<and>
     gym_team (st_cache (process_gym ex_disabled_manager ex_team_cache ex_gym)) (gym_id ex_gym)
       = Some (new_team_id ex_gym)"
    by blast
  from b have b1: "gym_name_slot (st_cache (process_gym ex_neutral_manager ex_team_cache ex_neutral_gym))
       (gym_id ex_neutral_gym)
     = (case gym_name ex_neutral_gym of Some n \<Rightarrow> Some n
        | None \<Rightarrow> gym_name_slot ex_team_cache (gym_id ex_neutral_gym))"
    by (rule conjunct1)
  then have b1': "gym_name_slot (st_cache (process_gym ex_neutral_manager ex_team_cache ex_neutral_gym))
       (gym_id ex_neutral_gym) = Some ''Tower''"
    by (simp only: n2 option.case)
  from b h2 have b2: "st_sent (process_gym ex_neutral_manager ex_team_cache ex_neutral_gym) = [] \<and>
     gym_team (st_cache (process_gym ex_neutral_manager ex_team_cache ex_neutral_gym))
       (gym_id ex_neutral_gym) = gym_team ex_team_cache (gym_id ex_neutral_gym)"
    by blast
  from h1 h2 off a1' a2 b1' b2 show ?thesis by blast
qed

text \<open>
  Claim C7 as stated fails at the neutral-change-ignore gate, which stands before the
  team update in \<^verbatim>\<open>process_gym\<close>: with neutral changes ignored, a gym event whose new
  team is 0 is dropped and the cache still holds the previous team 2, not the new
  team id.
\<close>

theorem neutral_gate_skips_team_write_counterexample:
  "ignore_neutral ex_neutral_manager \<and> new_team_id ex_neutral_gym = 0 \<and>
   gym_team ex_team_cache (gym_id ex_neutral_gym) = Some 2 \<and>
   st_sent (process_gym ex_neutral_manager ex_team_cache ex_neutral_gym) = [] \<and>
   gym_team (st_cache (process_gym ex_neutral_manager ex_team_cache ex_neutral_gym))
     (gym_id ex_neutral_gym) = Some 2 \<and>
   gym_team (st_cache (process_gym ex_neutral_manager ex_team_cache ex_neutral_gym))
     (gym_id ex_neutral_gym) \<noteq> Some (new_team_id ex_neutral_gym)"
  by (simp add: process_gym_def ex_neutral_manager_def ex_neutral_gym_def ex_team_cache_def
      ex_manager_def ex_gym_def ex_cache_def update_gym_details_def gym_name_rmw_def
      gym_desc_rmw_def gym_image_rmw_def slot_rmw_def gym_team_def no_dispatch_def
      Let_def split_def)

end
